theory Spec2Isabelle
  imports Main
begin

section \<open>The upload controller of the media repository\<close>

text \<open>
  A shallow embedding of \<^verbatim>\<open>controllers/upload_controller/upload_controller.go\<close>:
  \<^verbatim>\<open>IsRequestTooLarge\<close>, \<^verbatim>\<open>trackUploadAsLastAccess\<close>, \<^verbatim>\<open>IsAllowed\<close> and
  \<^verbatim>\<open>StoreDirect\<close>. The controller owns no data of its own: every effect goes through a
  collaborator that lives in another package (configuration, datastore, media store,
  metadata store, MIME sniffer, hasher, clock, file system, glob matcher, logger). The
  collaborators are parameters of the model, collected in the record \<open>env\<close>; what the
  controller asks them to do is written to a list of effects, in program order.
\<close>

subsection \<open>Data\<close>

text \<open>
  Go's \<^verbatim>\<open>int64\<close>. The controller only compares such values and never does arithmetic on
  them, so no wrap-around can occur and they are read as integers.
\<close>

type_synonym int64 = int

text \<open>
  Modelled from the spec: \<^verbatim>\<open>types.Media\<close> is declared outside the source at hand. The
  fields are the ten that the literal of the fresh-insert branch sets, which are the
  attributes of a media record in the data model of the spec.
\<close>

record media =
  Origin :: string
  MediaId :: string
  UploadName :: string
  ContentType :: string
  UserId :: string
  Sha256Hash :: string
  SizeBytes :: int64
  DatastoreId :: string
  Location :: string
  CreationTs :: int64

text \<open>
  The datastore handle returned by \<^verbatim>\<open>storage.PersistFile\<close>. The controller reads its
  \<^verbatim>\<open>DatastoreId\<close> field (here \<open>ds_DatastoreId\<close>, since \<open>DatastoreId\<close> names the field of
  a media record) and calls its method \<^verbatim>\<open>ResolveFilePath\<close>.
\<close>

record datastore =
  ds_DatastoreId :: string

text \<open>
  Errors are values. \<open>ErrMediaNotAllowed\<close> is \<^verbatim>\<open>common.ErrMediaNotAllowed\<close>,
  \<open>ErrorsNew msg\<close> is \<^verbatim>\<open>errors.New(msg)\<close>, and \<open>Failure d\<close> is an error that a
  collaborator returned, with its description.
\<close>

datatype error = ErrMediaNotAllowed | ErrorsNew string | Failure string

text \<open>
  Log records. The \<^verbatim>\<open>log\<close> argument of the controller's functions is \<open>Request\<close>, the
  package-level \<^verbatim>\<open>logrus\<close> logger is \<open>Global\<close>. A record keeps the arguments of the call:
  \<open>Str\<close> a string, \<open>Err\<close> an error (printed as its text, whether the code passes
  \<^verbatim>\<open>err\<close> or \<^verbatim>\<open>err.Error()\<close>).
\<close>

datatype logger = Request | Global
datatype level = Info | Warn | Error
datatype log_arg = Str string | Err error

text \<open>What the controller asks of the world, in the order of the calls.\<close>

datatype event =
    CallLog logger level "log_arg list"
  | CallRemove string
  | CallRename string string
  | CallInsert media
  | CallUpsertLastAccess string int64

text \<open>\<^verbatim>\<open>config.Get().Uploads\<close>. A Go map has no fixed iteration order: \<open>PerUserExclusions\<close>
  is the list of the map's entries in the order in which the \<^verbatim>\<open>range\<close> loop of one call
  visits them.\<close>

record uploads_config =
  MaxSizeBytes :: int64
  AllowedTypes :: "string list"
  PerUserExclusions :: "(string \<times> string list) list"

text \<open>
  The collaborators, each with the result it gives for its arguments during one call of
  the controller. A Go result \<^verbatim>\<open>(v, err)\<close> is a sum (\<open>Inl\<close> the error), a lone
  \<^verbatim>\<open>error\<close> result is an \<open>error option\<close>; \<^verbatim>\<open>util.FileExists\<close> keeps both of its
  results because the code tests both. \<open>NowMillis env k\<close> is what the clock shows when it
  is read for the \<open>k\<close>-th time.
\<close>

record env =
  Uploads :: uploads_config
  Glob :: "string \<Rightarrow> string \<Rightarrow> bool"
  ParseInt :: "string \<Rightarrow> error + int64"
  PersistFile :: "string \<Rightarrow> error + (datastore \<times> string)"
  ResolveFilePath :: "datastore \<Rightarrow> string \<Rightarrow> string"
  GetMimeType :: "string \<Rightarrow> error + string"
  GetFileHash :: "string \<Rightarrow> error + string"
  GetByHash :: "string \<Rightarrow> error + media list"
  Insert :: "media \<Rightarrow> error option"
  ResolveMediaLocation :: "string \<Rightarrow> string \<Rightarrow> error + string"
  FileExists :: "string \<Rightarrow> bool \<times> error option"
  FileSize :: "string \<Rightarrow> error + int64"
  NowMillis :: "nat \<Rightarrow> int64"
  UpsertLastAccess :: "string \<Rightarrow> int64 \<Rightarrow> error option"
  Remove :: "string \<Rightarrow> error option"
  Rename :: "string \<Rightarrow> string \<Rightarrow> error option"

text \<open>The state threaded through a call: the effects so far and how often the clock
  has been read.\<close>

record state =
  effects :: "event list"
  clock_reads :: nat

subsection \<open>Primitive operations\<close>

definition emit :: "event \<Rightarrow> state \<Rightarrow> state" where
  "emit e s = s\<lparr>effects := effects s @ [e]\<rparr>"

definition log_to :: "logger \<Rightarrow> level \<Rightarrow> log_arg list \<Rightarrow> state \<Rightarrow> state" where
  "log_to lg lv args s = emit (CallLog lg lv args) s"

text \<open>\<^verbatim>\<open>os.Remove\<close> and \<^verbatim>\<open>os.Rename\<close>: the call is recorded and its error is returned
  to the caller.\<close>

definition os_Remove :: "env \<Rightarrow> string \<Rightarrow> state \<Rightarrow> error option \<times> state" where
  "os_Remove env path s = (Remove env path, emit (CallRemove path) s)"

definition os_Rename :: "env \<Rightarrow> string \<Rightarrow> string \<Rightarrow> state \<Rightarrow> error option \<times> state" where
  "os_Rename env src dst s = (Rename env src dst, emit (CallRename src dst) s)"

definition db_Insert :: "env \<Rightarrow> media \<Rightarrow> state \<Rightarrow> error option \<times> state" where
  "db_Insert env m s = (Insert env m, emit (CallInsert m) s)"

definition util_NowMillis :: "env \<Rightarrow> state \<Rightarrow> int64 \<times> state" where
  "util_NowMillis env s = (NowMillis env (clock_reads s), s\<lparr>clock_reads := Suc (clock_reads s)\<rparr>)"

text \<open>The effects other than log records.\<close>

fun is_log :: "event \<Rightarrow> bool" where
  "is_log (CallLog lg lv args) = True"
| "is_log e = False"

definition actions :: "event list \<Rightarrow> event list" where
  "actions es = filter (\<lambda>e. \<not> is_log e) es"

subsection \<open>\<^verbatim>\<open>IsRequestTooLarge\<close>\<close>

definition NoApplicableUploadUser :: string where
  "NoApplicableUploadUser = ''''"

definition IsRequestTooLarge :: "env \<Rightarrow> int64 \<Rightarrow> string \<Rightarrow> state \<Rightarrow> bool \<times> state" where
  "IsRequestTooLarge env contentLength contentLengthHeader s =
     (if MaxSizeBytes (Uploads env) \<le> 0 then (False, s)
      else if contentLength \<ge> 0 then (contentLength > MaxSizeBytes (Uploads env), s)
      else if contentLengthHeader \<noteq> '''' then
        (case ParseInt env contentLengthHeader of
           Inl err \<Rightarrow>
             (True, log_to Global Warn
                [Str (''Invalid content length header given; assuming too large. Value received: ''
                      @ contentLengthHeader)] s)
         | Inr parsed \<Rightarrow> (parsed > MaxSizeBytes (Uploads env), s))
      else (False, s))"

subsection \<open>\<^verbatim>\<open>trackUploadAsLastAccess\<close>\<close>

definition trackUploadAsLastAccess :: "env \<Rightarrow> media \<Rightarrow> state \<Rightarrow> state" where
  "trackUploadAsLastAccess env m s =
     (let (now, s1) = util_NowMillis env s;
          s2 = emit (CallUpsertLastAccess (Sha256Hash m) now) s1
      in case UpsertLastAccess env (Sha256Hash m) now of
           None \<Rightarrow> s2
         | Some err \<Rightarrow>
             log_to Global Warn [Str ''Failed to upsert the last access time: '', Err err] s2)"

subsection \<open>\<^verbatim>\<open>IsAllowed\<close>\<close>

text \<open>The inner loop over the MIME globs of one per-user entry: it stops at the first
  glob that matches the sniffed type, logs, and reports \<open>allowed\<close>.\<close>

fun excl_types_loop ::
  "env \<Rightarrow> string \<Rightarrow> string \<Rightarrow> string \<Rightarrow> string list \<Rightarrow> state \<Rightarrow> bool \<times> state" where
  "excl_types_loop env contentType reportedContentType userId [] s = (False, s)"
| "excl_types_loop env contentType reportedContentType userId (exclType # rest) s =
     (if Glob env exclType contentType then
        (True, log_to Request Info
           [Str (''Content type '' @ contentType @ '' (reported as '' @ reportedContentType
                 @ '') is allowed due to a per-user policy for '' @ userId)] s)
      else excl_types_loop env contentType reportedContentType userId rest s)"

text \<open>The outer loop over the per-user entries. Its result is \<open>(allowed, userMatched,
  state)\<close>; \<open>allowed\<close> is false at the start of every round, since the loop breaks as soon
  as it is set.\<close>

fun per_user_loop ::
  "env \<Rightarrow> string \<Rightarrow> string \<Rightarrow> string \<Rightarrow> (string \<times> string list) list \<Rightarrow> bool \<Rightarrow> state
     \<Rightarrow> bool \<times> bool \<times> state" where
  "per_user_loop env contentType reportedContentType userId [] userMatched s =
     (False, userMatched, s)"
| "per_user_loop env contentType reportedContentType userId ((user, userExcl) # rest) userMatched s =
     (if Glob env user userId then
        (let s1 = (if \<not> userMatched
                   then log_to Request Info
                          [Str (''Per-user allowed types policy found for '' @ userId)] s
                   else s);
             (allowed, s2) = excl_types_loop env contentType reportedContentType userId userExcl s1
         in if allowed then (True, True, s2)
            else per_user_loop env contentType reportedContentType userId rest True s2)
      else per_user_loop env contentType reportedContentType userId rest userMatched s)"

text \<open>The loop over the general list.\<close>

fun allowed_types_loop :: "env \<Rightarrow> string \<Rightarrow> string list \<Rightarrow> bool" where
  "allowed_types_loop env contentType [] = False"
| "allowed_types_loop env contentType (allowedType # rest) =
     (if Glob env allowedType contentType then True
      else allowed_types_loop env contentType rest)"

definition IsAllowed :: "env \<Rightarrow> string \<Rightarrow> string \<Rightarrow> string \<Rightarrow> state \<Rightarrow> bool \<times> state" where
  "IsAllowed env contentType reportedContentType userId s =
     (let (allowed, userMatched, s1) =
            (if userId \<noteq> NoApplicableUploadUser
             then per_user_loop env contentType reportedContentType userId
                    (PerUserExclusions (Uploads env)) False s
             else (False, False, s))
      in if \<not> userMatched \<and> \<not> allowed then
           (let s2 = log_to Request Info
                       [Str ''Checking general allowed types due to no matching per-user policy''] s1;
                allowed1 = allowed_types_loop env contentType (AllowedTypes (Uploads env));
                allowed2 = (if length (AllowedTypes (Uploads env)) = 0 then True else allowed1)
            in (allowed2, s2))
         else (allowed, s1))"

subsection \<open>\<^verbatim>\<open>StoreDirect\<close>\<close>

text \<open>The scan for an exact duplicate (source lines 151 to 160): the first record of
  the lookup whose user id, origin and reported content type are those of the call; a
  call for the sentinel user does not scan.\<close>

definition exact_duplicate :: "media list \<Rightarrow> string \<Rightarrow> string \<Rightarrow> string \<Rightarrow> media option" where
  "exact_duplicate records userId origin contentType =
     (if userId \<noteq> NoApplicableUploadUser
      then find (\<lambda>record. UserId record = userId \<and> Origin record = origin
                       \<and> ContentType record = contentType) records
      else None)"

text \<open>The branch \<^verbatim>\<open>len(records) > 0\<close> (source lines 145 to 193).\<close>

definition StoreDirect_duplicate ::
  "env \<Rightarrow> string \<Rightarrow> string \<Rightarrow> media list \<Rightarrow> string \<Rightarrow> string \<Rightarrow> string \<Rightarrow> string \<Rightarrow> string
     \<Rightarrow> state \<Rightarrow> (error + media) \<times> state" where
  "StoreDirect_duplicate env fileLocation hash records contentType filename userId origin mediaId s =
     (let s = log_to Request Info [Str ''Duplicate media for hash '', Str hash] s
      in case exact_duplicate records userId origin contentType of
           Some record \<Rightarrow>
             (let s = log_to Request Info
                        [Str ''User has already uploaded this media before - returning unaltered media record''] s;
                  (_, s) = os_Remove env fileLocation s;
                  s = trackUploadAsLastAccess env record s
              in (Inr record, s))
         | None \<Rightarrow>
             (let media = records ! 0;
                  media = media\<lparr>Origin := origin\<rparr>;
                  media = media\<lparr>MediaId := mediaId\<rparr>;
                  media = media\<lparr>UserId := userId\<rparr>;
                  media = media\<lparr>UploadName := filename\<rparr>;
                  media = media\<lparr>ContentType := contentType\<rparr>;
                  (now, s) = util_NowMillis env s;
                  media = media\<lparr>CreationTs := now\<rparr>;
                  (err, s) = db_Insert env media s
              in case err of
                   Some e \<Rightarrow> (let (_, s) = os_Remove env fileLocation s in (Inl e, s))
                 | None \<Rightarrow>
                     (case ResolveMediaLocation env (DatastoreId media) (Location media) of
                        Inl err2 \<Rightarrow> (Inl err2, s)
                      | Inr targetPath \<Rightarrow>
                          (let (exists, err) = FileExists env targetPath;
                               (_, s) = (if err \<noteq> None \<or> \<not> exists
                                         then os_Rename env fileLocation targetPath s
                                         else os_Remove env fileLocation s);
                               s = trackUploadAsLastAccess env media s
                           in (Inr media, s)))))"

text \<open>The branch for media that does not exist yet (source lines 195 to 229).\<close>

definition StoreDirect_new ::
  "env \<Rightarrow> datastore \<Rightarrow> string \<Rightarrow> string \<Rightarrow> string \<Rightarrow> string \<Rightarrow> string \<Rightarrow> string \<Rightarrow> string \<Rightarrow> string
     \<Rightarrow> state \<Rightarrow> (error + media) \<times> state" where
  "StoreDirect_new env datastore location fileLocation hash contentType filename userId origin mediaId s =
     (case FileSize env fileLocation of
        Inl err \<Rightarrow> (let (_, s) = os_Remove env fileLocation s in (Inl err, s))
      | Inr fileSize \<Rightarrow>
          if fileSize \<le> 0 then (Inl (ErrorsNew ''file has no contents''), s)
          else
            (let s = log_to Request Info [Str ''Persisting new media record''] s;
                 (now, s) = util_NowMillis env s;
                 media = \<lparr>Origin = origin, MediaId = mediaId, UploadName = filename,
                          ContentType = contentType, UserId = userId, Sha256Hash = hash,
                          SizeBytes = fileSize, DatastoreId = ds_DatastoreId datastore,
                          Location = location, CreationTs = now\<rparr>;
                 (err, s) = db_Insert env media s
             in case err of
                  Some e \<Rightarrow> (let (_, s) = os_Remove env fileLocation s in (Inl e, s))
                | None \<Rightarrow> (let s = trackUploadAsLastAccess env media s in (Inr media, s))))"

text \<open>\<^verbatim>\<open>StoreDirect\<close>: persist, resolve, sniff, admit, hash, look up, then one of the two
  branches above. \<open>contents\<close> is what the reader delivers.\<close>

definition StoreDirect ::
  "env \<Rightarrow> string \<Rightarrow> string \<Rightarrow> string \<Rightarrow> string \<Rightarrow> string \<Rightarrow> string \<Rightarrow> state
     \<Rightarrow> (error + media) \<times> state" where
  "StoreDirect env contents contentType filename userId origin mediaId s =
     (case PersistFile env contents of
        Inl err \<Rightarrow> (Inl err, s)
      | Inr (datastore, location) \<Rightarrow>
          (let fileLocation = ResolveFilePath env datastore location
           in case GetMimeType env fileLocation of
                Inl err \<Rightarrow>
                  (let s = log_to Request Error
                             [Str ''Error while checking content type of file: '', Err err] s;
                       (_, s) = os_Remove env fileLocation s
                   in (Inl err, s))
              | Inr fileMime \<Rightarrow>
                  (let (allowed, s) = IsAllowed env fileMime contentType userId s
                   in if \<not> allowed then
                        (let s = log_to Request Warn
                                   [Str (''Content type '' @ fileMime @ '' (reported as ''
                                         @ contentType @ '') is not allowed to be uploaded'')] s;
                             (_, s) = os_Remove env fileLocation s
                         in (Inl ErrMediaNotAllowed, s))
                      else
                        (case GetFileHash env fileLocation of
                           Inl err \<Rightarrow>
                             (let (_, s) = os_Remove env fileLocation s in (Inl err, s))
                         | Inr hash \<Rightarrow>
                             (case GetByHash env hash of
                                Inl err \<Rightarrow>
                                  (let (_, s) = os_Remove env fileLocation s in (Inl err, s))
                              | Inr records \<Rightarrow>
                                  if length records > 0 then
                                    StoreDirect_duplicate env fileLocation hash records
                                      contentType filename userId origin mediaId s
                                  else
                                    StoreDirect_new env datastore location fileLocation hash
                                      contentType filename userId origin mediaId s)))))"

subsection \<open>A media store\<close>

text \<open>
  Modelled from the spec: the media store lives outside the source at hand, which only
  calls its \<^verbatim>\<open>GetByHash\<close> and \<^verbatim>\<open>Insert\<close>. The spec gives the interface
  (get-by-hash returns the records with a hash, insert adds a record) and imposes no order
  on what a lookup returns. Here the store is given by its rows: \<open>rows_by_hash\<close> lists
  the rows with a hash, of which a lookup returns a list with the same elements, and
  \<open>inserted env es\<close> lists the records that the effects \<open>es\<close> have added, which are
  those whose insert succeeded. Only \<open>StoreDirect_reupload_same_record\<close> uses this
  model; everywhere else the store is the parameter it is in \<open>env\<close>.
\<close>

definition rows_by_hash :: "media list \<Rightarrow> string \<Rightarrow> media list" where
  "rows_by_hash rows h = filter (\<lambda>r. Sha256Hash r = h) rows"

fun inserted :: "env \<Rightarrow> event list \<Rightarrow> media list" where
  "inserted env [] = []"
| "inserted env (CallInsert m # es) =
     (if Insert env m = None then m # inserted env es else inserted env es)"
| "inserted env (e # es) = inserted env es"

subsection \<open>Sample collaborators\<close>

text \<open>
  Concrete collaborators on which the theorems below are exercised. \<open>glob_star\<close> is a
  matcher in which \<open>*\<close> stands for any run of characters and every other character for
  itself; it is one possible value of the parameter \<open>Glob\<close>, and no theorem depends on
  it.
\<close>

fun glob_star :: "string \<Rightarrow> string \<Rightarrow> bool" where
  "glob_star [] s = (s = [])"
| "glob_star (p # ps) [] = (p = CHR ''*'' \<and> glob_star ps [])"
| "glob_star (p # ps) (c # cs) =
     (if p = CHR ''*'' then glob_star ps (c # cs) \<or> glob_star (p # ps) cs
      else p = c \<and> glob_star ps cs)"

definition start :: state where
  "start = \<lparr>effects = [], clock_reads = 0\<rparr>"

text \<open>A world in which every collaborator succeeds and the media store holds nothing:
  a limit of 10 MiB, images allowed in general, a per-user entry for Alice that allows
  MP4 video and one for Charlie that allows nothing.\<close>

definition sample_env :: env where
  "sample_env =
     \<lparr>Uploads = \<lparr>MaxSizeBytes = 10485760, AllowedTypes = [''image/*''],
                 PerUserExclusions = [(''@alice:*'', [''video/mp4'']), (''@charlie:*'', [])]\<rparr>,
      Glob = glob_star,
      ParseInt = (\<lambda>h. if h = ''42'' then Inr 42
                       else if h = ''99999999'' then Inr 99999999
                       else Inl (Failure ''invalid syntax'')),
      PersistFile = (\<lambda>c. Inr (\<lparr>ds_DatastoreId = ''ds1''\<rparr>, ''tmp/1'')),
      ResolveFilePath = (\<lambda>d l. ''/media/'' @ l),
      GetMimeType = (\<lambda>p. Inr ''image/png''),
      GetFileHash = (\<lambda>p. Inr ''abc123''),
      GetByHash = (\<lambda>h. Inr []),
      Insert = (\<lambda>m. None),
      ResolveMediaLocation = (\<lambda>d l. Inr (''/media/'' @ l)),
      FileExists = (\<lambda>p. (True, None)),
      FileSize = (\<lambda>p. Inr 4),
      NowMillis = (\<lambda>k. 1000 + int k),
      UpsertLastAccess = (\<lambda>h t. None),
      Remove = (\<lambda>p. None),
      Rename = (\<lambda>a b. None)\<rparr>"

text \<open>The record of an earlier upload by Bob of the bytes with hash \<open>abc123\<close>.\<close>

definition bob_record :: media where
  "bob_record =
     \<lparr>Origin = ''h'', MediaId = ''m1'', UploadName = ''a.png'', ContentType = ''image/png'',
      UserId = ''@bob:h'', Sha256Hash = ''abc123'', SizeBytes = 4, DatastoreId = ''ds1'',
      Location = ''blob/abc123'', CreationTs = 900\<rparr>"

text \<open>The sample world after that upload: the lookup by hash finds Bob's record.\<close>

definition dup_env :: env where
  "dup_env = sample_env\<lparr>GetByHash := (\<lambda>h. Inr [bob_record])\<rparr>"






section \<open>Properties\<close>

subsection \<open>The loops of \<^verbatim>\<open>IsAllowed\<close>\<close>

lemma excl_types_loop_fst:
  "fst (excl_types_loop env ct rct uid ts s) = (\<exists>t\<in>set ts. Glob env t ct)"
  by (induction ts) auto

lemma excl_types_loop_actions:
  "actions (effects (snd (excl_types_loop env ct rct uid ts s))) = actions (effects s)"
  by (induction ts) (auto simp: actions_def log_to_def emit_def)

lemma excl_types_loop_clock:
  "clock_reads (snd (excl_types_loop env ct rct uid ts s)) = clock_reads s"
  by (induction ts) (auto simp: log_to_def emit_def)

lemma allowed_types_loop_iff:
  "allowed_types_loop env ct ts = (\<exists>t\<in>set ts. Glob env t ct)"
  by (induction ts) auto

lemma per_user_loop_allowed:
  "fst (per_user_loop env ct rct uid es um s) =
     (\<exists>e\<in>set es. Glob env (fst e) uid \<and> (\<exists>t\<in>set (snd e). Glob env t ct))"
proof (induction es arbitrary: um s)
  case Nil
  then show ?case by simp
next
  case (Cons e es)
  obtain u ex where e: "e = (u, ex)" by (cases e)
  show ?case
    using Cons.IH
    by (simp add: e Let_def case_prod_beta excl_types_loop_fst)
qed

lemma per_user_loop_matched:
  "fst (snd (per_user_loop env ct rct uid es um s)) =
     (um \<or> (\<exists>e\<in>set es. Glob env (fst e) uid))"
proof (induction es arbitrary: um s)
  case Nil
  then show ?case by simp
next
  case (Cons e es)
  obtain u ex where e: "e = (u, ex)" by (cases e)
  show ?case
    using Cons.IH
    by (simp add: e Let_def case_prod_beta)
qed

lemma per_user_loop_actions:
  "actions (effects (snd (snd (per_user_loop env ct rct uid es um s)))) = actions (effects s)"
proof (induction es arbitrary: um s)
  case Nil
  then show ?case by simp
next
  case (Cons e es)
  obtain u ex where e: "e = (u, ex)" by (cases e)
  show ?case
    using Cons.IH
    by (simp add: e Let_def case_prod_beta excl_types_loop_actions)
       (simp add: actions_def log_to_def emit_def)
qed

lemma per_user_loop_clock:
  "clock_reads (snd (snd (per_user_loop env ct rct uid es um s))) = clock_reads s"
proof (induction es arbitrary: um s)
  case Nil
  then show ?case by simp
next
  case (Cons e es)
  obtain u ex where e: "e = (u, ex)" by (cases e)
  show ?case
    using Cons.IH
    by (simp add: e Let_def case_prod_beta excl_types_loop_clock log_to_def emit_def)
qed

lemma IsAllowed_fst:
  "fst (IsAllowed env ct rct uid s) =
     (if uid \<noteq> NoApplicableUploadUser \<and> (\<exists>e\<in>set (PerUserExclusions (Uploads env)). Glob env (fst e) uid)
      then (\<exists>e\<in>set (PerUserExclusions (Uploads env)). Glob env (fst e) uid \<and> (\<exists>t\<in>set (snd e). Glob env t ct))
      else AllowedTypes (Uploads env) = [] \<or> (\<exists>t\<in>set (AllowedTypes (Uploads env)). Glob env t ct))"
  using per_user_loop_allowed [of env ct rct uid "PerUserExclusions (Uploads env)" False s]
    per_user_loop_matched [of env ct rct uid "PerUserExclusions (Uploads env)" False s]
  by (auto simp: IsAllowed_def Let_def case_prod_beta allowed_types_loop_iff)

text \<open>The answer does not depend on the order in which the per-user entries are
  visited, nor on entries that occur twice.\<close>

lemma IsAllowed_order_independent:
  assumes "set (PerUserExclusions (Uploads env')) = set (PerUserExclusions (Uploads env))"
    and "AllowedTypes (Uploads env') = AllowedTypes (Uploads env)"
    and "Glob env' = Glob env"
  shows "fst (IsAllowed env' ct rct uid s) = fst (IsAllowed env ct rct uid s)"
  by (simp add: IsAllowed_fst assms)

lemma IsAllowed_actions:
  "actions (effects (snd (IsAllowed env ct rct uid s))) = actions (effects s)"
  using per_user_loop_actions [of env ct rct uid "PerUserExclusions (Uploads env)" False s]
  by (auto simp: IsAllowed_def Let_def case_prod_beta actions_def log_to_def emit_def)

lemma IsAllowed_clock:
  "clock_reads (snd (IsAllowed env ct rct uid s)) = clock_reads s"
  using per_user_loop_clock [of env ct rct uid "PerUserExclusions (Uploads env)" False s]
  by (auto simp: IsAllowed_def Let_def case_prod_beta log_to_def emit_def)


lemma excl_types_loop_cong:
  "Glob env' = Glob env \<Longrightarrow>
   excl_types_loop env' ct rct uid ts s = excl_types_loop env ct rct uid ts s"
  by (induction ts) auto

lemma per_user_loop_cong:
  "Glob env' = Glob env \<Longrightarrow>
   per_user_loop env' ct rct uid es um s = per_user_loop env ct rct uid es um s"
proof (induction es arbitrary: um s)
  case Nil
  then show ?case by simp
next
  case (Cons e es)
  obtain u ex where e: "e = (u, ex)" by (cases e)
  show ?case
    using Cons by (simp add: e Let_def case_prod_beta excl_types_loop_cong [of env' env])
qed

subsection \<open>The size check and the admission policy\<close>

text \<open>
  Claim C6. \<^verbatim>\<open>IsRequestTooLarge\<close> answers false whenever \<open>MaxSizeBytes\<close> is at most 0.
  Otherwise, for a content length of at least 0 it answers true exactly when the length
  exceeds \<open>MaxSizeBytes\<close>; otherwise, for a non-empty header, it answers true when the
  header does not parse as an \<^verbatim>\<open>int64\<close>, and when it parses, true exactly when the parsed
  value exceeds \<open>MaxSizeBytes\<close>; otherwise it answers false.
\<close>

theorem IsRequestTooLarge_decision:
  "(MaxSizeBytes (Uploads env) \<le> 0 \<longrightarrow> \<not> fst (IsRequestTooLarge env contentLength header s)) \<and>
   (0 < MaxSizeBytes (Uploads env) \<and> 0 \<le> contentLength \<longrightarrow>
      fst (IsRequestTooLarge env contentLength header s)
        = (MaxSizeBytes (Uploads env) < contentLength)) \<and>
   (0 < MaxSizeBytes (Uploads env) \<and> contentLength < 0 \<and> header \<noteq> '''' \<longrightarrow>
      (\<forall>err. ParseInt env header = Inl err \<longrightarrow>
         fst (IsRequestTooLarge env contentLength header s)) \<and>
      (\<forall>parsed. ParseInt env header = Inr parsed \<longrightarrow>
         fst (IsRequestTooLarge env contentLength header s)
           = (MaxSizeBytes (Uploads env) < parsed))) \<and>
   (0 < MaxSizeBytes (Uploads env) \<and> contentLength < 0 \<and> header = '''' \<longrightarrow>
      \<not> fst (IsRequestTooLarge env contentLength header s))"
  by (simp add: IsRequestTooLarge_def)

text \<open>The decision at the boundaries: no limit and a declared length of 1 TiB, one byte
  over and exactly at the limit of 10 MiB, and the three kinds of header.\<close>

theorem IsRequestTooLarge_decision_witness:
  "\<not> fst (IsRequestTooLarge (sample_env\<lparr>Uploads := (Uploads sample_env)\<lparr>MaxSizeBytes := 0\<rparr>\<rparr>)
            1099511627776 '''' start) \<and>
   fst (IsRequestTooLarge sample_env 10485761 '''' start) \<and>
   \<not> fst (IsRequestTooLarge sample_env 10485760 '''' start) \<and>
   ParseInt sample_env ''12x'' = Inl (Failure ''invalid syntax'') \<and>
   fst (IsRequestTooLarge sample_env (- 1) ''12x'' start) \<and>
   ParseInt sample_env ''42'' = Inr 42 \<and>
   \<not> fst (IsRequestTooLarge sample_env (- 1) ''42'' start) \<and>
   ParseInt sample_env ''99999999'' = Inr 99999999 \<and>
   fst (IsRequestTooLarge sample_env (- 1) ''99999999'' start) \<and>
   \<not> fst (IsRequestTooLarge sample_env (- 1) '''' start)"
  using
    IsRequestTooLarge_decision
      [of "sample_env\<lparr>Uploads := (Uploads sample_env)\<lparr>MaxSizeBytes := 0\<rparr>\<rparr>" 1099511627776 "''''" start]
    IsRequestTooLarge_decision [of sample_env 10485761 "''''" start]
    IsRequestTooLarge_decision [of sample_env 10485760 "''''" start]
    IsRequestTooLarge_decision [of sample_env "- 1" "''12x''" start]
    IsRequestTooLarge_decision [of sample_env "- 1" "''42''" start]
    IsRequestTooLarge_decision [of sample_env "- 1" "''99999999''" start]
    IsRequestTooLarge_decision [of sample_env "- 1" "''''" start]
  by (simp add: sample_env_def)

text \<open>
  Claim C4. For a user other than the sentinel whose id is matched by at least one
  per-user pattern, the general list is not consulted: the answer is true exactly when
  some MIME glob of a matching per-user entry matches the sniffed type, the whole outcome
  (answer and log) stays the same when \<open>AllowedTypes\<close> is replaced by any other list, and
  a user whose matching entries list no MIME glob at all is denied.
\<close>

theorem IsAllowed_per_user:
  assumes "userId \<noteq> NoApplicableUploadUser"
    and "\<exists>e\<in>set (PerUserExclusions (Uploads env)). Glob env (fst e) userId"
  shows
    "fst (IsAllowed env contentType reported userId s)
       = (\<exists>e\<in>set (PerUserExclusions (Uploads env)).
            Glob env (fst e) userId \<and> (\<exists>t\<in>set (snd e). Glob env t contentType)) \<and>
     IsAllowed (env\<lparr>Uploads := (Uploads env)\<lparr>AllowedTypes := general\<rparr>\<rparr>)
         contentType reported userId s
       = IsAllowed env contentType reported userId s \<and>
     ((\<forall>e\<in>set (PerUserExclusions (Uploads env)). Glob env (fst e) userId \<longrightarrow> snd e = [])
        \<longrightarrow> \<not> fst (IsAllowed env contentType reported userId s))"
proof -
  let ?pue = "PerUserExclusions (Uploads env)"
  let ?env' = "env\<lparr>Uploads := (Uploads env)\<lparr>AllowedTypes := general\<rparr>\<rparr>"
  have res: "fst (IsAllowed env contentType reported userId s)
       = (\<exists>e\<in>set ?pue. Glob env (fst e) userId \<and> (\<exists>t\<in>set (snd e). Glob env t contentType))"
    using assms by (simp add: IsAllowed_fst)
  have matched: "fst (snd (per_user_loop env contentType reported userId ?pue False s))"
    using assms(2) by (simp add: per_user_loop_matched)
  have same: "per_user_loop ?env' contentType reported userId ?pue False s
      = per_user_loop env contentType reported userId ?pue False s"
    by (rule per_user_loop_cong) simp
  have indep: "IsAllowed ?env' contentType reported userId s
      = IsAllowed env contentType reported userId s"
    using assms(1) matched
    by (simp add: IsAllowed_def same case_prod_beta)
  have empty: "(\<forall>e\<in>set ?pue. Glob env (fst e) userId \<longrightarrow> snd e = [])
        \<longrightarrow> \<not> fst (IsAllowed env contentType reported userId s)"
    unfolding res by auto
  from res indep empty show ?thesis by blast
qed

text \<open>Alice may upload MP4 video and, although images are allowed in general, no PNG;
  Charlie, whose entry is empty, is denied, also under an empty general list.\<close>

theorem IsAllowed_per_user_witness:
  "''@alice:h'' \<noteq> NoApplicableUploadUser \<and>
   (\<exists>e\<in>set (PerUserExclusions (Uploads sample_env)). Glob sample_env (fst e) ''@alice:h'') \<and>
   fst (IsAllowed sample_env ''video/mp4'' ''image/png'' ''@alice:h'' start) \<and>
   \<not> fst (IsAllowed sample_env ''image/png'' ''image/png'' ''@alice:h'' start) \<and>
   ''@charlie:h'' \<noteq> NoApplicableUploadUser \<and>
   (\<exists>e\<in>set (PerUserExclusions (Uploads sample_env)). Glob sample_env (fst e) ''@charlie:h'') \<and>
   \<not> fst (IsAllowed sample_env ''video/mp4'' ''video/mp4'' ''@charlie:h'' start) \<and>
   \<not> fst (IsAllowed (sample_env\<lparr>Uploads := (Uploads sample_env)\<lparr>AllowedTypes := []\<rparr>\<rparr>)
            ''video/mp4'' ''video/mp4'' ''@charlie:h'' start)"
proof -
  have a: "''@alice:h'' \<noteq> NoApplicableUploadUser"
    and c: "''@charlie:h'' \<noteq> NoApplicableUploadUser"
    by (simp_all add: NoApplicableUploadUser_def)
  have ma: "\<exists>e\<in>set (PerUserExclusions (Uploads sample_env)). Glob sample_env (fst e) ''@alice:h''"
    and mc: "\<exists>e\<in>set (PerUserExclusions (Uploads sample_env)). Glob sample_env (fst e) ''@charlie:h''"
    by (simp_all add: sample_env_def)
  show ?thesis
    using a c ma mc
      IsAllowed_per_user [OF a ma, of "''video/mp4''" "''image/png''" start "[]"]
      IsAllowed_per_user [OF a ma, of "''image/png''" "''image/png''" start "[]"]
      IsAllowed_per_user [OF c mc, of "''video/mp4''" "''video/mp4''" start "[]"]
    by (simp add: sample_env_def)
qed

text \<open>
  Claim C5. For the sentinel user, and for a user whose id no per-user pattern matches,
  the answer is the decision of the general list: true exactly when \<open>AllowedTypes\<close> is
  empty or one of its patterns matches the sniffed type. For the sentinel user the
  per-user entries are not looked at: the outcome is that decision and the one log record
  of the general check, whatever \<open>PerUserExclusions\<close> holds.
\<close>

theorem IsAllowed_general:
  assumes "userId = NoApplicableUploadUser
           \<or> \<not> (\<exists>e\<in>set (PerUserExclusions (Uploads env)). Glob env (fst e) userId)"
  shows
    "fst (IsAllowed env contentType reported userId s)
       = (AllowedTypes (Uploads env) = []
          \<or> (\<exists>t\<in>set (AllowedTypes (Uploads env)). Glob env t contentType)) \<and>
     IsAllowed env contentType reported NoApplicableUploadUser s
       = (AllowedTypes (Uploads env) = []
            \<or> (\<exists>t\<in>set (AllowedTypes (Uploads env)). Glob env t contentType),
          log_to Request Info
            [Str ''Checking general allowed types due to no matching per-user policy''] s)"
proof -
  have "fst (IsAllowed env contentType reported userId s)
       = (AllowedTypes (Uploads env) = []
          \<or> (\<exists>t\<in>set (AllowedTypes (Uploads env)). Glob env t contentType))"
    using assms by (auto simp: IsAllowed_fst)
  moreover have "IsAllowed env contentType reported NoApplicableUploadUser s
       = (AllowedTypes (Uploads env) = []
            \<or> (\<exists>t\<in>set (AllowedTypes (Uploads env)). Glob env t contentType),
          log_to Request Info
            [Str ''Checking general allowed types due to no matching per-user policy''] s)"
    by (auto simp: IsAllowed_def Let_def allowed_types_loop_iff)
  ultimately show ?thesis by blast
qed

text \<open>Bob, for whom there is no per-user entry, and the sentinel user get the answer
  of the general list.\<close>

theorem IsAllowed_general_witness:
  "\<not> (\<exists>e\<in>set (PerUserExclusions (Uploads sample_env)). Glob sample_env (fst e) ''@bob:h'') \<and>
   fst (IsAllowed sample_env ''image/png'' ''image/png'' ''@bob:h'' start) \<and>
   \<not> fst (IsAllowed sample_env ''video/mp4'' ''image/png'' ''@bob:h'' start) \<and>
   fst (IsAllowed (sample_env\<lparr>Uploads := (Uploads sample_env)\<lparr>AllowedTypes := []\<rparr>\<rparr>)
         ''video/mp4'' ''image/png'' ''@bob:h'' start) \<and>
   fst (IsAllowed sample_env ''image/png'' ''image/png'' NoApplicableUploadUser start) \<and>
   \<not> fst (IsAllowed sample_env ''video/mp4'' ''video/mp4'' NoApplicableUploadUser start)"
proof -
  have nb: "\<not> (\<exists>e\<in>set (PerUserExclusions (Uploads sample_env)). Glob sample_env (fst e) ''@bob:h'')"
    by (simp add: sample_env_def)
  have nb': "\<not> (\<exists>e\<in>set (PerUserExclusions
                (Uploads (sample_env\<lparr>Uploads := (Uploads sample_env)\<lparr>AllowedTypes := []\<rparr>\<rparr>))).
                Glob (sample_env\<lparr>Uploads := (Uploads sample_env)\<lparr>AllowedTypes := []\<rparr>\<rparr>) (fst e) ''@bob:h'')"
    by (simp add: sample_env_def)
  show ?thesis
    using nb
      IsAllowed_general [OF disjI2 [OF nb], of "''image/png''" "''image/png''" start]
      IsAllowed_general [OF disjI2 [OF nb], of "''video/mp4''" "''image/png''" start]
      IsAllowed_general [OF disjI2 [OF nb'], of "''video/mp4''" "''image/png''" start]
      IsAllowed_general [OF disjI1 [OF refl], of sample_env "''image/png''" "''image/png''" start]
      IsAllowed_general [OF disjI1 [OF refl], of sample_env "''video/mp4''" "''video/mp4''" start]
    by (simp add: sample_env_def)
qed

text \<open>
  Claim C9. The answer of \<^verbatim>\<open>IsAllowed\<close> does not depend on the reported content type:
  two calls that differ only in it agree. The call leaves nothing behind but log records
  (which is where the reported type goes) and does not read the clock.
\<close>

theorem IsAllowed_ignores_reported:
  "fst (IsAllowed env contentType reported1 userId s)
     = fst (IsAllowed env contentType reported2 userId s) \<and>
   actions (effects (snd (IsAllowed env contentType reported1 userId s))) = actions (effects s) \<and>
   clock_reads (snd (IsAllowed env contentType reported1 userId s)) = clock_reads s"
  by (simp add: IsAllowed_fst IsAllowed_actions IsAllowed_clock)

text \<open>A ZIP archive is denied whether it is reported as a PNG image or as what it is.\<close>

theorem IsAllowed_ignores_reported_witness:
  "fst (IsAllowed sample_env ''application/zip'' ''image/png'' ''@bob:h'' start)
     = fst (IsAllowed sample_env ''application/zip'' ''application/zip'' ''@bob:h'' start) \<and>
   \<not> fst (IsAllowed sample_env ''application/zip'' ''image/png'' ''@bob:h'' start)"
  using IsAllowed_ignores_reported [of sample_env "''application/zip''" "''image/png''" "''@bob:h''" start "''application/zip''"]
  by (simp add: IsAllowed_fst sample_env_def NoApplicableUploadUser_def)

subsection \<open>The stages of \<^verbatim>\<open>StoreDirect\<close>\<close>

lemma IsAllowed_cong:
  assumes "Uploads env' = Uploads env" and "Glob env' = Glob env"
  shows "IsAllowed env' ct rct uid s = IsAllowed env ct rct uid s"
proof -
  have loop: "allowed_types_loop env' ct ts = allowed_types_loop env ct ts" for ts
    by (simp add: allowed_types_loop_iff assms(2))
  show ?thesis
    by (simp add: IsAllowed_def Let_def case_prod_beta assms(1) loop per_user_loop_cong [OF assms(2)])
qed

lemma effects_trackUploadAsLastAccess:
  "effects (trackUploadAsLastAccess env m s) =
     effects s @ CallUpsertLastAccess (Sha256Hash m) (NowMillis env (clock_reads s))
       # (case UpsertLastAccess env (Sha256Hash m) (NowMillis env (clock_reads s)) of
            None \<Rightarrow> []
          | Some err \<Rightarrow>
              [CallLog Global Warn [Str ''Failed to upsert the last access time: '', Err err]])"
  by (simp add: trackUploadAsLastAccess_def util_NowMillis_def emit_def log_to_def Let_def
      split: option.splits)

lemma clock_trackUploadAsLastAccess:
  "clock_reads (trackUploadAsLastAccess env m s) = Suc (clock_reads s)"
  by (simp add: trackUploadAsLastAccess_def util_NowMillis_def emit_def log_to_def Let_def
      split: option.splits)

lemma actions_append: "actions (xs @ ys) = actions xs @ actions ys"
  by (simp add: actions_def)

lemma actions_trackUploadAsLastAccess:
  "actions (effects (trackUploadAsLastAccess env m s)) =
     actions (effects s) @ [CallUpsertLastAccess (Sha256Hash m) (NowMillis env (clock_reads s))]"
  by (simp add: effects_trackUploadAsLastAccess actions_append)
     (simp add: actions_def split: option.splits)

lemma StoreDirect_at_lookup:
  assumes "PersistFile env contents = Inr (datastore, location)"
    and "GetMimeType env (ResolveFilePath env datastore location) = Inr fileMime"
    and "fst (IsAllowed env fileMime contentType userId s)"
    and "GetFileHash env (ResolveFilePath env datastore location) = Inr hash"
    and "GetByHash env hash = Inr records"
  shows "StoreDirect env contents contentType filename userId origin mediaId s =
     (if records \<noteq> [] then
        StoreDirect_duplicate env (ResolveFilePath env datastore location) hash records
          contentType filename userId origin mediaId
          (snd (IsAllowed env fileMime contentType userId s))
      else
        StoreDirect_new env datastore location (ResolveFilePath env datastore location) hash
          contentType filename userId origin mediaId
          (snd (IsAllowed env fileMime contentType userId s)))"
  using assms by (simp add: StoreDirect_def case_prod_beta)

lemma StoreDirect_duplicate_exact:
  assumes "exact_duplicate records userId origin contentType = Some record"
  shows "StoreDirect_duplicate env fileLocation hash records contentType filename userId origin mediaId s =
     (Inr record,
      trackUploadAsLastAccess env record
        (emit (CallRemove fileLocation)
          (log_to Request Info
             [Str ''User has already uploaded this media before - returning unaltered media record'']
             (log_to Request Info [Str ''Duplicate media for hash '', Str hash] s))))"
  using assms by (simp add: StoreDirect_duplicate_def os_Remove_def)

lemma StoreDirect_duplicate_clone:
  assumes "exact_duplicate (template # rest) userId origin contentType = None"
  shows "StoreDirect_duplicate env fileLocation hash (template # rest) contentType filename userId origin mediaId s =
     (let media = template\<lparr>Origin := origin, MediaId := mediaId, UserId := userId,
                    UploadName := filename, ContentType := contentType,
                    CreationTs := NowMillis env (clock_reads s)\<rparr>;
          s1 = emit (CallInsert media)
                 ((log_to Request Info [Str ''Duplicate media for hash '', Str hash] s)
                    \<lparr>clock_reads := Suc (clock_reads s)\<rparr>)
      in case Insert env media of
           Some e \<Rightarrow> (Inl e, emit (CallRemove fileLocation) s1)
         | None \<Rightarrow>
             (case ResolveMediaLocation env (DatastoreId template) (Location template) of
                Inl err2 \<Rightarrow> (Inl err2, s1)
              | Inr targetPath \<Rightarrow>
                  (Inr media,
                   trackUploadAsLastAccess env media
                     (emit (if snd (FileExists env targetPath) \<noteq> None
                               \<or> \<not> fst (FileExists env targetPath)
                            then CallRename fileLocation targetPath
                            else CallRemove fileLocation) s1))))"
  using assms
  by (simp add: StoreDirect_duplicate_def os_Remove_def os_Rename_def db_Insert_def
      util_NowMillis_def log_to_def emit_def Let_def case_prod_beta
      split: option.splits sum.splits)

lemma StoreDirect_new_unfold:
  "StoreDirect_new env datastore location fileLocation hash contentType filename userId origin mediaId s =
     (case FileSize env fileLocation of
        Inl err \<Rightarrow> (Inl err, emit (CallRemove fileLocation) s)
      | Inr fileSize \<Rightarrow>
          if fileSize \<le> 0 then (Inl (ErrorsNew ''file has no contents''), s)
          else
            (let media = \<lparr>Origin = origin, MediaId = mediaId, UploadName = filename,
                          ContentType = contentType, UserId = userId, Sha256Hash = hash,
                          SizeBytes = fileSize, DatastoreId = ds_DatastoreId datastore,
                          Location = location, CreationTs = NowMillis env (clock_reads s)\<rparr>;
                 s1 = emit (CallInsert media)
                        ((log_to Request Info [Str ''Persisting new media record''] s)
                           \<lparr>clock_reads := Suc (clock_reads s)\<rparr>)
             in case Insert env media of
                  Some e \<Rightarrow> (Inl e, emit (CallRemove fileLocation) s1)
                | None \<Rightarrow> (Inr media, trackUploadAsLastAccess env media s1)))"
  by (simp add: StoreDirect_new_def os_Remove_def db_Insert_def util_NowMillis_def
      log_to_def emit_def Let_def case_prod_beta split: option.splits sum.splits)

lemma exact_duplicate_Some:
  assumes "exact_duplicate records userId origin contentType = Some record"
  shows "userId \<noteq> NoApplicableUploadUser \<and> record \<in> set records \<and> UserId record = userId
         \<and> Origin record = origin \<and> ContentType record = contentType"
  using assms
  by (auto simp: exact_duplicate_def find_Some_iff split: if_splits)

lemma exact_duplicate_None:
  "exact_duplicate records userId origin contentType = None \<longleftrightarrow>
     userId = NoApplicableUploadUser
     \<or> \<not> (\<exists>r\<in>set records. UserId r = userId \<and> Origin r = origin \<and> ContentType r = contentType)"
  by (auto simp: exact_duplicate_def find_None_iff)

subsection \<open>Exact duplicates\<close>

lemma exact_duplicate_unique:
  assumes "userId \<noteq> NoApplicableUploadUser"
    and "r \<in> set records"
    and "UserId r = userId \<and> Origin r = origin \<and> ContentType r = contentType"
    and "\<forall>x\<in>set records.
           UserId x = userId \<and> Origin x = origin \<and> ContentType x = contentType \<longrightarrow> x = r"
  shows "exact_duplicate records userId origin contentType = Some r"
proof (cases "exact_duplicate records userId origin contentType")
  case None
  with assms(1-3) show ?thesis
    by (auto simp: exact_duplicate_None)
next
  case (Some x)
  from exact_duplicate_Some [OF Some] assms(4) have "x = r" by blast
  with Some show ?thesis by simp
qed




subsection \<open>Empty files\<close>

text \<open>
  Claim C7. When a call gets as far as the lookup by hash, the lookup finds no record and
  the size of the temp file is at most 0, \<^verbatim>\<open>StoreDirect\<close> returns the error ``file has
  no contents'' in the state in which admission left it: nothing is inserted, and the
  temp file is neither removed nor renamed, so it stays where the datastore put it.
\<close>

theorem StoreDirect_no_contents:
  assumes persist: "PersistFile env contents = Inr (datastore, location)"
    and sniff: "GetMimeType env (ResolveFilePath env datastore location) = Inr fileMime"
    and admit: "fst (IsAllowed env fileMime contentType userId s)"
    and hash: "GetFileHash env (ResolveFilePath env datastore location) = Inr hash"
    and lookup: "GetByHash env hash = Inr []"
    and size: "FileSize env (ResolveFilePath env datastore location) = Inr fileSize"
    and empty: "fileSize \<le> 0"
  shows
    "StoreDirect env contents contentType filename userId origin mediaId s
       = (Inl (ErrorsNew ''file has no contents''),
          snd (IsAllowed env fileMime contentType userId s)) \<and>
     actions (effects (snd (StoreDirect env contents contentType filename userId origin mediaId s)))
       = actions (effects s)"
  using StoreDirect_at_lookup [OF persist sniff admit hash lookup] size empty
  by (simp add: StoreDirect_new_unfold IsAllowed_actions)

text \<open>An empty upload in the sample world, where the file size is reported as 0.\<close>

theorem StoreDirect_no_contents_witness:
  "PersistFile (sample_env\<lparr>FileSize := (\<lambda>p. Inr 0)\<rparr>) '''' = Inr (\<lparr>ds_DatastoreId = ''ds1''\<rparr>, ''tmp/1'') \<and>
   GetByHash (sample_env\<lparr>FileSize := (\<lambda>p. Inr 0)\<rparr>) ''abc123'' = Inr [] \<and>
   FileSize (sample_env\<lparr>FileSize := (\<lambda>p. Inr 0)\<rparr>) ''/media/tmp/1'' = Inr 0 \<and>
   fst (StoreDirect (sample_env\<lparr>FileSize := (\<lambda>p. Inr 0)\<rparr>) '''' ''image/png'' ''empty.png''
          ''@bob:h'' ''h'' ''m2'' start)
     = Inl (ErrorsNew ''file has no contents'') \<and>
   actions (effects (snd (StoreDirect (sample_env\<lparr>FileSize := (\<lambda>p. Inr 0)\<rparr>) '''' ''image/png''
          ''empty.png'' ''@bob:h'' ''h'' ''m2'' start))) = []"
proof -
  let ?env = "sample_env\<lparr>FileSize := (\<lambda>p. Inr 0)\<rparr>"
  have h1: "PersistFile ?env '''' = Inr (\<lparr>ds_DatastoreId = ''ds1''\<rparr>, ''tmp/1'')"
    by (simp add: sample_env_def)
  have h2: "GetMimeType ?env (ResolveFilePath ?env \<lparr>ds_DatastoreId = ''ds1''\<rparr> ''tmp/1'')
     = Inr ''image/png''"
    by (simp add: sample_env_def)
  have h3: "fst (IsAllowed ?env ''image/png'' ''image/png'' ''@bob:h'' start)"
    by (simp add: IsAllowed_fst sample_env_def)
  have h4: "GetFileHash ?env (ResolveFilePath ?env \<lparr>ds_DatastoreId = ''ds1''\<rparr> ''tmp/1'')
     = Inr ''abc123''"
    by (simp add: sample_env_def)
  have h5: "GetByHash ?env ''abc123'' = Inr []"
    by (simp add: sample_env_def)
  have h6: "FileSize ?env (ResolveFilePath ?env \<lparr>ds_DatastoreId = ''ds1''\<rparr> ''tmp/1'') = Inr 0"
    by (simp add: sample_env_def)
  have h6': "FileSize ?env ''/media/tmp/1'' = Inr 0"
    by (simp add: sample_env_def)
  have h7: "(0::int) \<le> 0" by simp
  have a0: "actions (effects start) = []" by (simp add: start_def actions_def)
  show ?thesis
    using h1 h5 h6'
      StoreDirect_no_contents [OF h1 h2 h3 h4 h5 h6 h7, of "''empty.png''" "''h''" "''m2''"]
    by (simp add: a0 IsAllowed_actions)
qed

subsection \<open>Clone and insert\<close>

lemma actions_emit:
  "actions (effects (emit e s)) = actions (effects s) @ (if is_log e then [] else [e])"
  by (simp add: emit_def actions_def)

lemma actions_log_to: "actions (effects (log_to lg lv args s)) = actions (effects s)"
  by (simp add: log_to_def actions_emit)

lemma clock_emit: "clock_reads (emit e s) = clock_reads s"
  by (simp add: emit_def)

lemma clock_log_to: "clock_reads (log_to lg lv args s) = clock_reads s"
  by (simp add: log_to_def clock_emit)

lemma effects_emit_clock:
  "effects (emit e (s\<lparr>clock_reads := k\<rparr>)) = effects (emit e s)"
  by (simp add: emit_def)

text \<open>The clone branch, as result and actions.\<close>

lemma StoreDirect_duplicate_clone_result:
  assumes "exact_duplicate (template # rest) userId origin contentType = None"
    and "media = template\<lparr>Origin := origin, MediaId := mediaId, UserId := userId,
                    UploadName := filename, ContentType := contentType,
                    CreationTs := NowMillis env (clock_reads s)\<rparr>"
  shows "fst (StoreDirect_duplicate env fileLocation hash (template # rest) contentType filename
               userId origin mediaId s) =
     (case Insert env media of
        Some e \<Rightarrow> Inl e
      | None \<Rightarrow>
          (case ResolveMediaLocation env (DatastoreId template) (Location template) of
             Inl err2 \<Rightarrow> Inl err2
           | Inr targetPath \<Rightarrow> Inr media))"
  unfolding StoreDirect_duplicate_clone [OF assms(1)] assms(2)
  by (simp add: Let_def split: option.splits sum.splits)

lemma StoreDirect_duplicate_clone_actions:
  assumes "exact_duplicate (template # rest) userId origin contentType = None"
    and "media = template\<lparr>Origin := origin, MediaId := mediaId, UserId := userId,
                    UploadName := filename, ContentType := contentType,
                    CreationTs := NowMillis env (clock_reads s)\<rparr>"
  shows "actions (effects (snd (StoreDirect_duplicate env fileLocation hash (template # rest)
               contentType filename userId origin mediaId s))) =
     actions (effects s) @ CallInsert media #
     (case Insert env media of
        Some e \<Rightarrow> [CallRemove fileLocation]
      | None \<Rightarrow>
          (case ResolveMediaLocation env (DatastoreId template) (Location template) of
             Inl err2 \<Rightarrow> []
           | Inr targetPath \<Rightarrow>
               [if snd (FileExists env targetPath) \<noteq> None \<or> \<not> fst (FileExists env targetPath)
                then CallRename fileLocation targetPath
                else CallRemove fileLocation,
                CallUpsertLastAccess (Sha256Hash template) (NowMillis env (Suc (clock_reads s)))]))"
  unfolding StoreDirect_duplicate_clone [OF assms(1)] assms(2)
  by (simp add: Let_def actions_trackUploadAsLastAccess actions_emit actions_log_to
      clock_emit clock_log_to effects_emit_clock split: option.splits sum.splits)

text \<open>
  Claim C3. Take a call that gets as far as the lookup by hash, let the lookup return the
  records \<open>template # rest\<close>, and let the exact-duplicate short-circuit not fire (the
  user is the sentinel, or no record of the lookup has the user id, origin and reported
  content type of the call). Let \<open>media\<close> be the first record of the lookup with origin,
  media id, user id, upload name and reported content type replaced by the arguments of
  the call and the creation timestamp by the reading of the clock. Then \<open>media\<close> keeps
  the hash, size, datastore id and location of the template; the first thing the call
  does besides logging is to insert \<open>media\<close>, and it inserts nothing else; a record
  returned by the call is \<open>media\<close>; and \<open>media\<close> is returned when the insert succeeds
  and the location of the template resolves.
\<close>

theorem StoreDirect_clone_record:
  assumes persist: "PersistFile env contents = Inr (datastore, location)"
    and sniff: "GetMimeType env (ResolveFilePath env datastore location) = Inr fileMime"
    and admit: "fst (IsAllowed env fileMime contentType userId s)"
    and hash: "GetFileHash env (ResolveFilePath env datastore location) = Inr hash"
    and lookup: "GetByHash env hash = Inr (template # rest)"
    and no_short_circuit:
      "userId = NoApplicableUploadUser
       \<or> \<not> (\<exists>r\<in>set (template # rest).
                UserId r = userId \<and> Origin r = origin \<and> ContentType r = contentType)"
    and media: "media = template\<lparr>Origin := origin, MediaId := mediaId, UserId := userId,
                UploadName := filename, ContentType := contentType,
                CreationTs := NowMillis env (clock_reads s)\<rparr>"
  shows
     "Sha256Hash media = Sha256Hash template \<and> SizeBytes media = SizeBytes template \<and>
      DatastoreId media = DatastoreId template \<and> Location media = Location template \<and>
      Origin media = origin \<and> MediaId media = mediaId \<and> UserId media = userId \<and>
      UploadName media = filename \<and> ContentType media = contentType \<and>
      CreationTs media = NowMillis env (clock_reads s) \<and>
      (\<exists>tail.
         actions (effects (snd (StoreDirect env contents contentType filename userId origin mediaId s)))
           = actions (effects s) @ CallInsert media # tail \<and>
         (\<forall>m. CallInsert m \<notin> set tail)) \<and>
      (\<forall>m. fst (StoreDirect env contents contentType filename userId origin mediaId s) = Inr m
           \<longrightarrow> m = media) \<and>
      (Insert env media = None \<and>
       (\<exists>targetPath. ResolveMediaLocation env (DatastoreId template) (Location template)
                       = Inr targetPath)
       \<longrightarrow> fst (StoreDirect env contents contentType filename userId origin mediaId s) = Inr media)"
proof -
  define s1 where "s1 = snd (IsAllowed env fileMime contentType userId s)"
  define run where "run = StoreDirect env contents contentType filename userId origin mediaId s"
  define tail where "tail =
     (case Insert env media of
        Some e \<Rightarrow> [CallRemove (ResolveFilePath env datastore location)]
      | None \<Rightarrow>
          (case ResolveMediaLocation env (DatastoreId template) (Location template) of
             Inl err2 \<Rightarrow> []
           | Inr targetPath \<Rightarrow>
               [if snd (FileExists env targetPath) \<noteq> None \<or> \<not> fst (FileExists env targetPath)
                then CallRename (ResolveFilePath env datastore location) targetPath
                else CallRemove (ResolveFilePath env datastore location),
                CallUpsertLastAccess (Sha256Hash template) (NowMillis env (Suc (clock_reads s)))]))"
  have none: "exact_duplicate (template # rest) userId origin contentType = None"
    using no_short_circuit by (simp only: exact_duplicate_None)
  have clock: "clock_reads s1 = clock_reads s"
    unfolding s1_def by (rule IsAllowed_clock)
  have acts1: "actions (effects s1) = actions (effects s)"
    unfolding s1_def by (rule IsAllowed_actions)
  have media': "media = template\<lparr>Origin := origin, MediaId := mediaId, UserId := userId,
                UploadName := filename, ContentType := contentType,
                CreationTs := NowMillis env (clock_reads s1)\<rparr>"
    by (simp only: media clock)
  have run: "run =
      StoreDirect_duplicate env (ResolveFilePath env datastore location) hash (template # rest)
        contentType filename userId origin mediaId s1"
    unfolding run_def s1_def
    using StoreDirect_at_lookup [OF persist sniff admit hash lookup] by simp
  have res: "fst run =
      (case Insert env media of
         Some e \<Rightarrow> Inl e
       | None \<Rightarrow>
           (case ResolveMediaLocation env (DatastoreId template) (Location template) of
              Inl err2 \<Rightarrow> Inl err2
            | Inr targetPath \<Rightarrow> Inr media))"
    unfolding run by (rule StoreDirect_duplicate_clone_result [OF none media'])
  have acts: "actions (effects (snd run)) = actions (effects s) @ CallInsert media # tail"
    unfolding run tail_def
    using StoreDirect_duplicate_clone_actions [OF none media',
        of "ResolveFilePath env datastore location" hash]
    by (simp only: acts1 clock)
  have tail: "\<forall>m. CallInsert m \<notin> set tail"
    by (simp add: tail_def split: option.splits sum.splits)
  have only: "\<forall>m. fst run = Inr m \<longrightarrow> m = media"
    by (simp add: res split: option.splits sum.splits)
  have ok: "Insert env media = None \<and>
       (\<exists>targetPath. ResolveMediaLocation env (DatastoreId template) (Location template)
                       = Inr targetPath)
       \<longrightarrow> fst run = Inr media"
    by (auto simp: res)
  have fields: "Sha256Hash media = Sha256Hash template \<and> SizeBytes media = SizeBytes template \<and>
      DatastoreId media = DatastoreId template \<and> Location media = Location template \<and>
      Origin media = origin \<and> MediaId media = mediaId \<and> UserId media = userId \<and>
      UploadName media = filename \<and> ContentType media = contentType \<and>
      CreationTs media = NowMillis env (clock_reads s)"
    by (simp add: media)
  show ?thesis
    using fields acts tail only ok unfolding run_def by blast
qed

text \<open>Dave uploads the bytes that Bob has uploaded before: the new record has Dave's
  attributes, a fresh media id and the time of the call, and Bob's hash, size, datastore
  id and location.\<close>

theorem StoreDirect_clone_record_witness:
  "PersistFile dup_env ''PNG'' = Inr (\<lparr>ds_DatastoreId = ''ds1''\<rparr>, ''tmp/1'') \<and>
   fst (IsAllowed dup_env ''image/png'' ''image/png'' ''@dave:h'' start) \<and>
   GetByHash dup_env ''abc123'' = Inr [bob_record] \<and>
   \<not> (\<exists>r\<in>set [bob_record].
        UserId r = ''@dave:h'' \<and> Origin r = ''h'' \<and> ContentType r = ''image/png'') \<and>
   fst (StoreDirect dup_env ''PNG'' ''image/png'' ''d.png'' ''@dave:h'' ''h'' ''m2'' start)
     = Inr \<lparr>Origin = ''h'', MediaId = ''m2'', UploadName = ''d.png'', ContentType = ''image/png'',
            UserId = ''@dave:h'', Sha256Hash = ''abc123'', SizeBytes = 4, DatastoreId = ''ds1'',
            Location = ''blob/abc123'', CreationTs = 1000\<rparr> \<and>
   (\<exists>tail. actions (effects (snd (StoreDirect dup_env ''PNG'' ''image/png'' ''d.png'' ''@dave:h''
                                    ''h'' ''m2'' start)))
      = CallInsert \<lparr>Origin = ''h'', MediaId = ''m2'', UploadName = ''d.png'',
                     ContentType = ''image/png'', UserId = ''@dave:h'', Sha256Hash = ''abc123'',
                     SizeBytes = 4, DatastoreId = ''ds1'', Location = ''blob/abc123'',
                     CreationTs = 1000\<rparr> # tail
      \<and> (\<forall>m. CallInsert m \<notin> set tail))"
proof -
  let ?clone = "\<lparr>Origin = ''h'', MediaId = ''m2'', UploadName = ''d.png'', ContentType = ''image/png'',
            UserId = ''@dave:h'', Sha256Hash = ''abc123'', SizeBytes = 4, DatastoreId = ''ds1'',
            Location = ''blob/abc123'', CreationTs = 1000\<rparr>"
  have h1: "PersistFile dup_env ''PNG'' = Inr (\<lparr>ds_DatastoreId = ''ds1''\<rparr>, ''tmp/1'')"
    by (simp add: dup_env_def sample_env_def)
  have h2: "GetMimeType dup_env (ResolveFilePath dup_env \<lparr>ds_DatastoreId = ''ds1''\<rparr> ''tmp/1'')
     = Inr ''image/png''"
    by (simp add: dup_env_def sample_env_def)
  have h3: "fst (IsAllowed dup_env ''image/png'' ''image/png'' ''@dave:h'' start)"
    by (simp add: IsAllowed_fst dup_env_def sample_env_def)
  have h4: "GetFileHash dup_env (ResolveFilePath dup_env \<lparr>ds_DatastoreId = ''ds1''\<rparr> ''tmp/1'')
     = Inr ''abc123''"
    by (simp add: dup_env_def sample_env_def)
  have h5: "GetByHash dup_env ''abc123'' = Inr [bob_record]"
    by (simp add: dup_env_def sample_env_def)
  have h6: "\<not> (\<exists>r\<in>set [bob_record].
        UserId r = ''@dave:h'' \<and> Origin r = ''h'' \<and> ContentType r = ''image/png'')"
    by (simp add: bob_record_def)
  have h7: "?clone = bob_record\<lparr>Origin := ''h'', MediaId := ''m2'', UserId := ''@dave:h'',
                UploadName := ''d.png'', ContentType := ''image/png'',
                CreationTs := NowMillis dup_env (clock_reads start)\<rparr>"
    by (simp add: bob_record_def dup_env_def sample_env_def start_def)
  have pre: "Insert dup_env ?clone = None"
    "ResolveMediaLocation dup_env (DatastoreId bob_record) (Location bob_record)
       = Inr ''/media/blob/abc123''"
    by (simp_all add: dup_env_def sample_env_def bob_record_def)
  have a0: "actions (effects start) = []" by (simp add: start_def actions_def)
  note clone = StoreDirect_clone_record [OF h1 h2 h3 h4 h5 disjI2 [OF h6] h7]
  from clone have ex: "\<exists>tail.
      actions (effects (snd (StoreDirect dup_env ''PNG'' ''image/png'' ''d.png'' ''@dave:h''
                               ''h'' ''m2'' start)))
        = actions (effects start) @ CallInsert ?clone # tail
      \<and> (\<forall>m. CallInsert m \<notin> set tail)"
    by (elim conjE) assumption
  from clone have imp: "Insert dup_env ?clone = None \<and>
       (\<exists>targetPath. ResolveMediaLocation dup_env (DatastoreId bob_record) (Location bob_record)
                       = Inr targetPath)
       \<longrightarrow> fst (StoreDirect dup_env ''PNG'' ''image/png'' ''d.png'' ''@dave:h'' ''h'' ''m2'' start)
             = Inr ?clone"
    by (elim conjE) assumption
  have res: "fst (StoreDirect dup_env ''PNG'' ''image/png'' ''d.png'' ''@dave:h'' ''h'' ''m2'' start)
             = Inr ?clone"
    using imp by (simp add: pre)
  have acts: "\<exists>tail.
      actions (effects (snd (StoreDirect dup_env ''PNG'' ''image/png'' ''d.png'' ''@dave:h''
                               ''h'' ''m2'' start)))
        = CallInsert ?clone # tail
      \<and> (\<forall>m. CallInsert m \<notin> set tail)"
    using ex by (simp add: a0)
  show ?thesis
    by (intro conjI h1 h3 h5 h6 res acts)
qed

text \<open>
  Claim C10. On the clone-and-insert path, when the insert has succeeded and the location
  of the template has resolved to \<open>targetPath\<close>, the call returns the new record
  whatever \<^verbatim>\<open>util.FileExists\<close>, \<^verbatim>\<open>os.Rename\<close> and \<^verbatim>\<open>os.Remove\<close> answer: the
  three collaborators are replaced by arbitrary ones, their errors never reach the
  result. The call renames the temp file onto the target when the existence check fails
  or denies, removes it otherwise, and then upserts last-access.
\<close>

theorem StoreDirect_clone_file_errors_discarded:
  assumes persist: "PersistFile env contents = Inr (datastore, location)"
    and sniff: "GetMimeType env (ResolveFilePath env datastore location) = Inr fileMime"
    and admit: "fst (IsAllowed env fileMime contentType userId s)"
    and hash: "GetFileHash env (ResolveFilePath env datastore location) = Inr hash"
    and lookup: "GetByHash env hash = Inr (template # rest)"
    and no_short_circuit:
      "userId = NoApplicableUploadUser
       \<or> \<not> (\<exists>r\<in>set (template # rest).
                UserId r = userId \<and> Origin r = origin \<and> ContentType r = contentType)"
    and media: "media = template\<lparr>Origin := origin, MediaId := mediaId, UserId := userId,
                UploadName := filename, ContentType := contentType,
                CreationTs := NowMillis env (clock_reads s)\<rparr>"
    and inserted: "Insert env media = None"
    and resolved: "ResolveMediaLocation env (DatastoreId template) (Location template)
                     = Inr targetPath"
  shows
    "fst (StoreDirect (env\<lparr>FileExists := fe, Remove := rm, Rename := rn\<rparr>)
            contents contentType filename userId origin mediaId s) = Inr media \<and>
     actions (effects (snd (StoreDirect (env\<lparr>FileExists := fe, Remove := rm, Rename := rn\<rparr>)
            contents contentType filename userId origin mediaId s)))
       = actions (effects s)
         @ [CallInsert media,
            if snd (fe targetPath) \<noteq> None \<or> \<not> fst (fe targetPath)
            then CallRename (ResolveFilePath env datastore location) targetPath
            else CallRemove (ResolveFilePath env datastore location),
            CallUpsertLastAccess (Sha256Hash template) (NowMillis env (Suc (clock_reads s)))]"
proof -
  define env' where "env' = env\<lparr>FileExists := fe, Remove := rm, Rename := rn\<rparr>"
  define s1 where "s1 = snd (IsAllowed env' fileMime contentType userId s)"
  have same: "IsAllowed env' fileMime contentType userId s = IsAllowed env fileMime contentType userId s"
    unfolding env'_def by (rule IsAllowed_cong) simp_all
  have persist': "PersistFile env' contents = Inr (datastore, location)"
    and path': "ResolveFilePath env' datastore location = ResolveFilePath env datastore location"
    and hash': "GetFileHash env' (ResolveFilePath env datastore location) = Inr hash"
    and sniff': "GetMimeType env' (ResolveFilePath env datastore location) = Inr fileMime"
    and lookup': "GetByHash env' hash = Inr (template # rest)"
    and inserted': "Insert env' media = None"
    and resolved': "ResolveMediaLocation env' (DatastoreId template) (Location template) = Inr targetPath"
    and now': "NowMillis env' = NowMillis env"
    and fe': "FileExists env' = fe"
    using persist sniff hash lookup inserted resolved by (simp_all add: env'_def)
  have admit': "fst (IsAllowed env' fileMime contentType userId s)"
    using admit by (simp only: same)
  have none: "exact_duplicate (template # rest) userId origin contentType = None"
    using no_short_circuit by (simp only: exact_duplicate_None)
  have clock: "clock_reads s1 = clock_reads s"
    unfolding s1_def by (rule IsAllowed_clock)
  have acts1: "actions (effects s1) = actions (effects s)"
    unfolding s1_def by (rule IsAllowed_actions)
  have media': "media = template\<lparr>Origin := origin, MediaId := mediaId, UserId := userId,
                UploadName := filename, ContentType := contentType,
                CreationTs := NowMillis env' (clock_reads s1)\<rparr>"
    by (simp only: media clock now')
  have run: "StoreDirect env' contents contentType filename userId origin mediaId s =
      StoreDirect_duplicate env' (ResolveFilePath env datastore location) hash (template # rest)
        contentType filename userId origin mediaId s1"
    unfolding s1_def
    using StoreDirect_at_lookup [of env' contents datastore location fileMime contentType
          userId s hash "template # rest" filename origin mediaId]
      persist' sniff' admit' hash' lookup'
    by (simp add: path')
  have res: "fst (StoreDirect env' contents contentType filename userId origin mediaId s) = Inr media"
    unfolding run
    by (simp add: StoreDirect_duplicate_clone_result [OF none media'] inserted' resolved')
  have acts: "actions (effects (snd (StoreDirect env' contents contentType filename userId origin mediaId s)))
       = actions (effects s)
         @ [CallInsert media,
            if snd (fe targetPath) \<noteq> None \<or> \<not> fst (fe targetPath)
            then CallRename (ResolveFilePath env datastore location) targetPath
            else CallRemove (ResolveFilePath env datastore location),
            CallUpsertLastAccess (Sha256Hash template) (NowMillis env (Suc (clock_reads s)))]"
    unfolding run
    by (simp add: StoreDirect_duplicate_clone_actions [OF none media'] inserted' resolved'
        acts1 clock now' fe')
  from res acts show ?thesis unfolding env'_def by blast
qed

text \<open>The existence check, the rename and the remove all fail, and Dave's upload still
  succeeds.\<close>

theorem StoreDirect_clone_file_errors_discarded_witness:
  "Insert dup_env \<lparr>Origin = ''h'', MediaId = ''m2'', UploadName = ''d.png'',
                    ContentType = ''image/png'', UserId = ''@dave:h'', Sha256Hash = ''abc123'',
                    SizeBytes = 4, DatastoreId = ''ds1'', Location = ''blob/abc123'',
                    CreationTs = 1000\<rparr> = None \<and>
   ResolveMediaLocation dup_env ''ds1'' ''blob/abc123'' = Inr ''/media/blob/abc123'' \<and>
   fst (StoreDirect
          (dup_env\<lparr>FileExists := (\<lambda>p. (False, Some (Failure ''stat failed''))),
                    Remove := (\<lambda>p. Some (Failure ''remove failed'')),
                    Rename := (\<lambda>a b. Some (Failure ''rename failed''))\<rparr>)
          ''PNG'' ''image/png'' ''d.png'' ''@dave:h'' ''h'' ''m2'' start)
     = Inr \<lparr>Origin = ''h'', MediaId = ''m2'', UploadName = ''d.png'', ContentType = ''image/png'',
            UserId = ''@dave:h'', Sha256Hash = ''abc123'', SizeBytes = 4, DatastoreId = ''ds1'',
            Location = ''blob/abc123'', CreationTs = 1000\<rparr> \<and>
   actions (effects (snd (StoreDirect
          (dup_env\<lparr>FileExists := (\<lambda>p. (False, Some (Failure ''stat failed''))),
                    Remove := (\<lambda>p. Some (Failure ''remove failed'')),
                    Rename := (\<lambda>a b. Some (Failure ''rename failed''))\<rparr>)
          ''PNG'' ''image/png'' ''d.png'' ''@dave:h'' ''h'' ''m2'' start)))
     = [CallInsert \<lparr>Origin = ''h'', MediaId = ''m2'', UploadName = ''d.png'',
                     ContentType = ''image/png'', UserId = ''@dave:h'', Sha256Hash = ''abc123'',
                     SizeBytes = 4, DatastoreId = ''ds1'', Location = ''blob/abc123'',
                     CreationTs = 1000\<rparr>,
        CallRename ''/media/tmp/1'' ''/media/blob/abc123'',
        CallUpsertLastAccess ''abc123'' 1001]"
proof -
  let ?clone = "\<lparr>Origin = ''h'', MediaId = ''m2'', UploadName = ''d.png'', ContentType = ''image/png'',
            UserId = ''@dave:h'', Sha256Hash = ''abc123'', SizeBytes = 4, DatastoreId = ''ds1'',
            Location = ''blob/abc123'', CreationTs = 1000\<rparr>"
  have h1: "PersistFile dup_env ''PNG'' = Inr (\<lparr>ds_DatastoreId = ''ds1''\<rparr>, ''tmp/1'')"
    by (simp add: dup_env_def sample_env_def)
  have h2: "GetMimeType dup_env (ResolveFilePath dup_env \<lparr>ds_DatastoreId = ''ds1''\<rparr> ''tmp/1'')
     = Inr ''image/png''"
    by (simp add: dup_env_def sample_env_def)
  have h3: "fst (IsAllowed dup_env ''image/png'' ''image/png'' ''@dave:h'' start)"
    by (simp add: IsAllowed_fst dup_env_def sample_env_def)
  have h4: "GetFileHash dup_env (ResolveFilePath dup_env \<lparr>ds_DatastoreId = ''ds1''\<rparr> ''tmp/1'')
     = Inr ''abc123''"
    by (simp add: dup_env_def sample_env_def)
  have h5: "GetByHash dup_env ''abc123'' = Inr [bob_record]"
    by (simp add: dup_env_def sample_env_def)
  have h6: "\<not> (\<exists>r\<in>set [bob_record].
        UserId r = ''@dave:h'' \<and> Origin r = ''h'' \<and> ContentType r = ''image/png'')"
    by (simp add: bob_record_def)
  have h7: "?clone = bob_record\<lparr>Origin := ''h'', MediaId := ''m2'', UserId := ''@dave:h'',
                UploadName := ''d.png'', ContentType := ''image/png'',
                CreationTs := NowMillis dup_env (clock_reads start)\<rparr>"
    by (simp add: bob_record_def dup_env_def sample_env_def start_def)
  have h8: "Insert dup_env ?clone = None"
    by (simp add: dup_env_def sample_env_def)
  have h9: "ResolveMediaLocation dup_env (DatastoreId bob_record) (Location bob_record)
              = Inr ''/media/blob/abc123''"
    by (simp add: dup_env_def sample_env_def bob_record_def)
  have h9': "ResolveMediaLocation dup_env ''ds1'' ''blob/abc123'' = Inr ''/media/blob/abc123''"
    by (simp add: dup_env_def sample_env_def)
  have a0: "actions (effects start) = []" by (simp add: start_def actions_def)
  have vals: "ResolveFilePath dup_env \<lparr>ds_DatastoreId = ''ds1''\<rparr> ''tmp/1'' = ''/media/tmp/1''"
    "Sha256Hash bob_record = ''abc123''"
    "NowMillis dup_env (Suc (clock_reads start)) = 1001"
    by (simp_all add: dup_env_def sample_env_def bob_record_def start_def)
  show ?thesis
    using h8 h9'
      StoreDirect_clone_file_errors_discarded [OF h1 h2 h3 h4 h5 disjI2 [OF h6] h7 h8 h9,
        where fe = "\<lambda>p. (False, Some (Failure ''stat failed''))"
          and rm = "\<lambda>p. Some (Failure ''remove failed'')"
          and rn = "\<lambda>a b. Some (Failure ''rename failed'')"]
    by (simp add: a0 vals)
qed

subsection \<open>Uploading the same bytes again\<close>

text \<open>Re-uploading against the media store modelled above, whose lookups may return
  the rows with a hash in any order. Let the store hold at most one row with the hash,
  user id, origin and reported content type in question. A first upload by a user other
  than the sentinel succeeds, by whichever path, and returns \<open>r1\<close>; the store then
  holds its rows and what the first call inserted; a second upload of bytes with the same
  hash, by the same user, with the same origin and reported content type, returns \<open>r1\<close>
  again and inserts nothing.\<close>

lemma inserted_actions: "inserted env (actions es) = inserted env es"
  by (induction env es rule: inserted.induct) (simp_all add: actions_def)

lemma StoreDirect_Inr_stages:
  assumes "fst (StoreDirect env contents contentType filename userId origin mediaId s) = Inr m"
  shows "\<exists>datastore location fileMime hash records.
      PersistFile env contents = Inr (datastore, location) \<and>
      GetMimeType env (ResolveFilePath env datastore location) = Inr fileMime \<and>
      fst (IsAllowed env fileMime contentType userId s) \<and>
      GetFileHash env (ResolveFilePath env datastore location) = Inr hash \<and>
      GetByHash env hash = Inr records"
proof -
  from assms obtain datastore location where
    persist: "PersistFile env contents = Inr (datastore, location)"
    by (cases "PersistFile env contents") (auto simp: StoreDirect_def)
  let ?path = "ResolveFilePath env datastore location"
  from assms persist obtain fileMime where sniff: "GetMimeType env ?path = Inr fileMime"
    by (cases "GetMimeType env ?path")
       (auto simp: StoreDirect_def Let_def case_prod_beta)
  from assms persist sniff have admit: "fst (IsAllowed env fileMime contentType userId s)"
    by (auto simp: StoreDirect_def Let_def case_prod_beta split: if_splits)
  from assms persist sniff admit obtain hash where hash: "GetFileHash env ?path = Inr hash"
    by (cases "GetFileHash env ?path")
       (auto simp: StoreDirect_def Let_def case_prod_beta)
  from assms persist sniff admit hash obtain records where lookup: "GetByHash env hash = Inr records"
    by (cases "GetByHash env hash")
       (auto simp: StoreDirect_def Let_def case_prod_beta)
  from persist sniff admit hash lookup show ?thesis by blast
qed

lemma StoreDirect_new_Inr:
  assumes "fst (StoreDirect_new env datastore location fileLocation hash contentType filename
                  userId origin mediaId s) = Inr m"
  shows "Insert env m = None \<and> Sha256Hash m = hash \<and> UserId m = userId \<and> Origin m = origin
         \<and> ContentType m = contentType
         \<and> actions (effects (snd (StoreDirect_new env datastore location fileLocation hash
               contentType filename userId origin mediaId s)))
             = actions (effects s)
               @ [CallInsert m, CallUpsertLastAccess hash (NowMillis env (Suc (clock_reads s)))]"
  using assms
  by (auto simp: StoreDirect_new_unfold Let_def actions_trackUploadAsLastAccess actions_emit
      actions_log_to clock_emit clock_log_to effects_emit_clock
      split: sum.splits option.splits if_splits)

lemma StoreDirect_duplicate_clone_Inr:
  assumes none: "exact_duplicate (template # rest) userId origin contentType = None"
    and res: "fst (StoreDirect_duplicate env fileLocation hash (template # rest) contentType
                  filename userId origin mediaId s) = Inr m"
  shows "Insert env m = None \<and> Sha256Hash m = Sha256Hash template \<and> UserId m = userId
         \<and> Origin m = origin \<and> ContentType m = contentType
         \<and> (\<exists>fileOp. \<not> is_log fileOp \<and> (\<forall>x. fileOp \<noteq> CallInsert x) \<and>
              actions (effects (snd (StoreDirect_duplicate env fileLocation hash (template # rest)
                 contentType filename userId origin mediaId s)))
               = actions (effects s)
                 @ [CallInsert m, fileOp,
                    CallUpsertLastAccess (Sha256Hash template) (NowMillis env (Suc (clock_reads s)))])"
proof -
  define media where "media = template\<lparr>Origin := origin, MediaId := mediaId, UserId := userId,
                    UploadName := filename, ContentType := contentType,
                    CreationTs := NowMillis env (clock_reads s)\<rparr>"
  note r = StoreDirect_duplicate_clone_result [OF none media_def, of fileLocation hash]
  note a = StoreDirect_duplicate_clone_actions [OF none media_def, of fileLocation hash]
  from res r have ins: "Insert env media = None"
    by (cases "Insert env media") auto
  from res r ins obtain targetPath where
    tp: "ResolveMediaLocation env (DatastoreId template) (Location template) = Inr targetPath"
    by (cases "ResolveMediaLocation env (DatastoreId template) (Location template)") auto
  from res r ins tp have m: "m = media" by simp
  show ?thesis
    unfolding m
    using ins a tp by (auto simp: media_def)
qed

lemma inserted_append: "inserted env (xs @ ys) = inserted env xs @ inserted env ys"
  by (induction env xs rule: inserted.induct) simp_all

lemma inserted_file_op:
  assumes "\<forall>x. e \<noteq> CallInsert x"
  shows "inserted env (e # es) = inserted env es"
  using assms by (cases e) auto

lemma StoreDirect_reupload_same_record:
  assumes lookup1: "GetByHash env1 hash = Inr records1"
    and held1: "set records1 = set (rows_by_hash rows hash)"
    and unique: "\<forall>a\<in>set rows. \<forall>b\<in>set rows.
        Sha256Hash a = hash \<and> UserId a = userId \<and> Origin a = origin \<and> ContentType a = contentType \<and>
        Sha256Hash b = hash \<and> UserId b = userId \<and> Origin b = origin \<and> ContentType b = contentType
        \<longrightarrow> a = b"
    and empty_log: "effects s1 = []"
    and first: "StoreDirect env1 contents contentType filename1 userId origin mediaId1 s1
                  = (Inr r1, s1')"
    and user: "userId \<noteq> NoApplicableUploadUser"
    and persist1: "PersistFile env1 contents = Inr (datastore1, location1)"
    and hash1: "GetFileHash env1 (ResolveFilePath env1 datastore1 location1) = Inr hash"
    and lookup2: "GetByHash env2 hash = Inr records2"
    and held2: "set records2 = set (rows_by_hash (rows @ inserted env1 (effects s1')) hash)"
    and persist2: "PersistFile env2 contents2 = Inr (datastore2, location2)"
    and sniff2: "GetMimeType env2 (ResolveFilePath env2 datastore2 location2) = Inr fileMime2"
    and admit2: "fst (IsAllowed env2 fileMime2 contentType userId s2)"
    and hash2: "GetFileHash env2 (ResolveFilePath env2 datastore2 location2) = Inr hash"
  shows "fst (StoreDirect env2 contents2 contentType filename2 userId origin mediaId2 s2) = Inr r1 \<and>
     inserted env2 (actions (effects
        (snd (StoreDirect env2 contents2 contentType filename2 userId origin mediaId2 s2))))
       = inserted env2 (actions (effects s2))"
proof -
  let ?P = "\<lambda>r. UserId r = userId \<and> Origin r = origin \<and> ContentType r = contentType"
  let ?run1 = "StoreDirect env1 contents contentType filename1 userId origin mediaId1 s1"
  let ?path1 = "ResolveFilePath env1 datastore1 location1"
  from first have res1: "fst ?run1 = Inr r1" and st1: "snd ?run1 = s1'" by simp_all
  from StoreDirect_Inr_stages [OF res1] persist1 hash1 obtain fileMime where
    sniff1: "GetMimeType env1 ?path1 = Inr fileMime"
    and admit1: "fst (IsAllowed env1 fileMime contentType userId s1)"
    by auto
  let ?sA = "snd (IsAllowed env1 fileMime contentType userId s1)"
  have acts0: "actions (effects s1) = []"
    by (simp add: empty_log actions_def)
  have actsA: "actions (effects ?sA) = []"
    by (simp add: IsAllowed_actions acts0)
  note run1 = StoreDirect_at_lookup [OF persist1 sniff1 admit1 hash1 lookup1,
      of filename1 origin mediaId1]
  have in_rows: "x \<in> set records1 \<longleftrightarrow> x \<in> set rows \<and> Sha256Hash x = hash" for x
    by (simp add: held1 rows_by_hash_def)
  have in_rows2: "x \<in> set records2 \<longleftrightarrow>
      (x \<in> set rows \<or> x \<in> set (inserted env1 (effects s1'))) \<and> Sha256Hash x = hash" for x
    by (auto simp: held2 rows_by_hash_def)
  have only: "r1 \<in> set records2 \<and> ?P r1 \<and> (\<forall>x\<in>set records2. ?P x \<longrightarrow> x = r1)"
  proof (cases "records1 = []")
    case True
    with res1 run1 have "fst (StoreDirect_new env1 datastore1 location1 ?path1 hash contentType
        filename1 userId origin mediaId1 ?sA) = Inr r1" by simp
    note new = StoreDirect_new_Inr [OF this]
    from new run1 True st1 actsA have "actions (effects s1')
        = [CallInsert r1, CallUpsertLastAccess hash (NowMillis env1 (Suc (clock_reads ?sA)))]"
      by simp
    then have "inserted env1 (actions (effects s1')) = [r1]"
      using new by simp
    then have ins: "inserted env1 (effects s1') = [r1]"
      by (simp add: inserted_actions)
    from new have p1: "?P r1" and hr1: "Sha256Hash r1 = hash" by simp_all
    have none: "Sha256Hash x \<noteq> hash" if "x \<in> set rows" for x
      using in_rows [of x] that True by auto
    have mem: "r1 \<in> set records2"
      by (simp add: in_rows2 ins hr1)
    have uniq2: "\<forall>x\<in>set records2. ?P x \<longrightarrow> x = r1"
    proof (intro ballI impI)
      fix x assume x: "x \<in> set records2"
      then have "(x \<in> set rows \<or> x = r1) \<and> Sha256Hash x = hash"
        by (simp add: in_rows2 ins)
      with none [of x] show "x = r1" by blast
    qed
    from mem p1 uniq2 show ?thesis by blast
  next
    case False
    with res1 run1 have dupres: "fst (StoreDirect_duplicate env1 ?path1 hash records1 contentType
        filename1 userId origin mediaId1 ?sA) = Inr r1" by simp
    from False run1 st1 have st: "s1' = snd (StoreDirect_duplicate env1 ?path1 hash records1
        contentType filename1 userId origin mediaId1 ?sA)" by simp
    show ?thesis
    proof (cases "exact_duplicate records1 userId origin contentType")
      case (Some dup)
      from dupres have r1: "r1 = dup"
        by (simp add: StoreDirect_duplicate_exact [OF Some])
      have "actions (effects s1') = [CallRemove ?path1,
              CallUpsertLastAccess (Sha256Hash dup) (NowMillis env1 (clock_reads ?sA))]"
        unfolding st
        by (simp add: StoreDirect_duplicate_exact [OF Some] actions_trackUploadAsLastAccess
            actions_emit actions_log_to clock_emit clock_log_to actsA)
      then have "inserted env1 (actions (effects s1')) = []" by simp
      then have ins: "inserted env1 (effects s1') = []"
        by (simp add: inserted_actions)
      from exact_duplicate_Some [OF Some] have d: "dup \<in> set records1" "?P dup" by simp_all
      from d(1) have drow: "dup \<in> set rows" "Sha256Hash dup = hash" by (simp_all add: in_rows)
      have "\<forall>x\<in>set records2. ?P x \<longrightarrow> x = dup"
      proof (intro ballI impI)
        fix x assume "x \<in> set records2" and px: "?P x"
        then have xr: "x \<in> set rows" and xh: "Sha256Hash x = hash"
          by (simp_all add: in_rows2 ins)
        from px xh d(2) drow(2) have "Sha256Hash x = hash \<and> UserId x = userId \<and> Origin x = origin
            \<and> ContentType x = contentType \<and> Sha256Hash dup = hash \<and> UserId dup = userId
            \<and> Origin dup = origin \<and> ContentType dup = contentType"
          by (intro conjI) simp_all
        with unique [rule_format, OF xr drow(1)] show "x = dup" .
      qed
      moreover have "dup \<in> set records2"
        by (simp add: in_rows2 ins drow)
      ultimately show ?thesis
        unfolding r1 using d(2) by blast
    next
      case None
      from False obtain template rest where recs: "records1 = template # rest"
        by (cases records1) auto
      have "template \<in> set records1" by (simp add: recs)
      then have th: "Sha256Hash template = hash" by (simp add: in_rows)
      note clone = StoreDirect_duplicate_clone_Inr [OF None [unfolded recs] dupres [unfolded recs]]
      from clone obtain fileOp where fileOp: "\<forall>x. fileOp \<noteq> CallInsert x"
        and acts: "actions (effects s1')
          = [CallInsert r1, fileOp,
             CallUpsertLastAccess (Sha256Hash template) (NowMillis env1 (Suc (clock_reads ?sA)))]"
        unfolding st recs using actsA by auto
      have "inserted env1 (actions (effects s1')) = [r1]"
        using clone by (simp add: acts inserted_file_op [OF fileOp])
      then have ins: "inserted env1 (effects s1') = [r1]"
        by (simp add: inserted_actions)
      from None user have nomatch: "\<forall>x\<in>set records1. \<not> ?P x"
        by (simp add: exact_duplicate_None)
      have "\<forall>x\<in>set records2. ?P x \<longrightarrow> x = r1"
      proof (intro ballI impI)
        fix x assume x: "x \<in> set records2" and px: "?P x"
        show "x = r1"
        proof (rule ccontr)
          assume "x \<noteq> r1"
          with x have "x \<in> set rows \<and> Sha256Hash x = hash"
            by (simp add: in_rows2 ins)
          then have "x \<in> set records1" by (simp add: in_rows)
          with nomatch px show False by blast
        qed
      qed
      moreover from clone have p1: "?P r1" and hr1: "Sha256Hash r1 = Sha256Hash template"
        by simp_all
      moreover have "r1 \<in> set records2"
        by (simp add: in_rows2 ins hr1 th)
      ultimately show ?thesis by blast
    qed
  qed
  from only user have found2: "exact_duplicate records2 userId origin contentType = Some r1"
    by (intro exact_duplicate_unique) simp_all
  from only have nonempty: "records2 \<noteq> []" by auto
  note run2 = StoreDirect_at_lookup [OF persist2 sniff2 admit2 hash2 lookup2,
      of filename2 origin mediaId2]
  show ?thesis
    using nonempty
    by (simp add: run2 StoreDirect_duplicate_exact [OF found2] actions_trackUploadAsLastAccess
        actions_emit actions_log_to IsAllowed_actions inserted_append)
qed

subsection \<open>Last-access tracking\<close>

lemma StoreDirect_new_fst_upsert:
  "fst (StoreDirect_new (env\<lparr>UpsertLastAccess := u\<rparr>) datastore location fileLocation hash
          contentType filename userId origin mediaId s)
   = fst (StoreDirect_new env datastore location fileLocation hash
          contentType filename userId origin mediaId s)"
  by (simp add: StoreDirect_new_unfold Let_def split: sum.splits option.splits)

lemma StoreDirect_duplicate_fst_upsert:
  "fst (StoreDirect_duplicate (env\<lparr>UpsertLastAccess := u\<rparr>) fileLocation hash records
          contentType filename userId origin mediaId s)
   = fst (StoreDirect_duplicate env fileLocation hash records
          contentType filename userId origin mediaId s)"
  by (simp add: StoreDirect_duplicate_def os_Remove_def os_Rename_def db_Insert_def
      util_NowMillis_def Let_def case_prod_beta split: sum.splits option.splits)

lemma StoreDirect_fst_upsert:
  "fst (StoreDirect (env\<lparr>UpsertLastAccess := u\<rparr>) contents contentType filename userId origin
          mediaId s)
   = fst (StoreDirect env contents contentType filename userId origin mediaId s)"
proof -
  have same: "IsAllowed (env\<lparr>UpsertLastAccess := u\<rparr>) mime contentType userId s
      = IsAllowed env mime contentType userId s" for mime
    by (rule IsAllowed_cong) simp_all
  show ?thesis
    by (simp add: StoreDirect_def same os_Remove_def Let_def case_prod_beta
        StoreDirect_new_fst_upsert StoreDirect_duplicate_fst_upsert
        split: sum.splits prod.splits)
qed

lemma StoreDirect_new_success:
  assumes "fst (StoreDirect_new env datastore location fileLocation hash contentType filename
                  userId origin mediaId s) = Inr m"
  shows "\<exists>sx. snd (StoreDirect_new env datastore location fileLocation hash contentType filename
                  userId origin mediaId s) = trackUploadAsLastAccess env m sx
          \<and> clock_reads s \<le> clock_reads sx \<and> Sha256Hash m = hash"
  using assms
  by (auto simp: StoreDirect_new_unfold Let_def clock_emit clock_log_to
      split: sum.splits option.splits if_splits)

lemma StoreDirect_duplicate_success:
  assumes "fst (StoreDirect_duplicate env fileLocation hash records contentType filename
                  userId origin mediaId s) = Inr m"
    and "records \<noteq> []"
  shows "\<exists>sx. snd (StoreDirect_duplicate env fileLocation hash records contentType filename
                  userId origin mediaId s) = trackUploadAsLastAccess env m sx
          \<and> clock_reads s \<le> clock_reads sx \<and> Sha256Hash m \<in> Sha256Hash ` set records"
proof (cases "exact_duplicate records userId origin contentType")
  case (Some dup)
  from exact_duplicate_Some [OF Some] have "dup \<in> set records" by simp
  with assms(1) show ?thesis
    by (auto simp: StoreDirect_duplicate_exact [OF Some] clock_emit clock_log_to)
next
  case None
  from assms(2) obtain template rest where recs: "records = template # rest"
    by (cases records) auto
  show ?thesis
    using assms(1) unfolding recs StoreDirect_duplicate_clone [OF None [unfolded recs]]
    by (auto simp: Let_def clock_emit clock_log_to split: sum.splits option.splits)
qed

lemma StoreDirect_success:
  assumes "fst (StoreDirect env contents contentType filename userId origin mediaId s) = Inr m"
  shows "\<exists>datastore location hash records sx.
      PersistFile env contents = Inr (datastore, location) \<and>
      GetFileHash env (ResolveFilePath env datastore location) = Inr hash \<and>
      GetByHash env hash = Inr records \<and>
      snd (StoreDirect env contents contentType filename userId origin mediaId s)
        = trackUploadAsLastAccess env m sx \<and>
      clock_reads s \<le> clock_reads sx \<and>
      (Sha256Hash m = hash \<or> Sha256Hash m \<in> Sha256Hash ` set records)"
proof -
  from assms obtain datastore location where
    persist: "PersistFile env contents = Inr (datastore, location)"
    by (cases "PersistFile env contents") (auto simp: StoreDirect_def)
  let ?path = "ResolveFilePath env datastore location"
  from assms persist obtain fileMime where sniff: "GetMimeType env ?path = Inr fileMime"
    by (cases "GetMimeType env ?path")
       (auto simp: StoreDirect_def Let_def case_prod_beta)
  let ?s1 = "snd (IsAllowed env fileMime contentType userId s)"
  from assms persist sniff have admit: "fst (IsAllowed env fileMime contentType userId s)"
    by (auto simp: StoreDirect_def Let_def case_prod_beta split: if_splits)
  from assms persist sniff admit obtain hash where hash: "GetFileHash env ?path = Inr hash"
    by (cases "GetFileHash env ?path")
       (auto simp: StoreDirect_def Let_def case_prod_beta)
  from assms persist sniff admit hash obtain records where lookup: "GetByHash env hash = Inr records"
    by (cases "GetByHash env hash")
       (auto simp: StoreDirect_def Let_def case_prod_beta)
  note run = StoreDirect_at_lookup [OF persist sniff admit hash lookup,
      of filename origin mediaId]
  have clock: "clock_reads ?s1 = clock_reads s" by (rule IsAllowed_clock)
  have "\<exists>sx. snd (StoreDirect env contents contentType filename userId origin mediaId s)
        = trackUploadAsLastAccess env m sx \<and>
      clock_reads s \<le> clock_reads sx \<and>
      (Sha256Hash m = hash \<or> Sha256Hash m \<in> Sha256Hash ` set records)"
  proof (cases "records = []")
    case True
    with assms run have "fst (StoreDirect_new env datastore location ?path hash contentType
        filename userId origin mediaId ?s1) = Inr m" by simp
    from StoreDirect_new_success [OF this] show ?thesis
      using True run clock by auto
  next
    case False
    with assms run have "fst (StoreDirect_duplicate env ?path hash records contentType
        filename userId origin mediaId ?s1) = Inr m" by simp
    from StoreDirect_duplicate_success [OF this False] show ?thesis
      using False run clock by auto
  qed
  with persist hash lookup show ?thesis by blast
qed

text \<open>
  Claim C8. When \<^verbatim>\<open>StoreDirect\<close> returns a record \<open>m\<close>, by whichever of its three
  successful paths, the last thing it did was to upsert last-access for the hash of
  \<open>m\<close> with the reading of the clock taken for that purpose (the last reading of the
  call), followed only, when the upsert failed, by one warning on the global logger that
  carries the error. The hash of \<open>m\<close> is the hash of the file whenever the lookup
  returned records of that hash. The outcome of the upsert does not reach the result:
  with any other metadata store the call returns the same record.
\<close>

theorem StoreDirect_success_tracks_last_access:
  assumes "fst (StoreDirect env contents contentType filename userId origin mediaId s) = Inr m"
  shows
    "(\<exists>before k.
        clock_reads s \<le> k \<and>
        clock_reads (snd (StoreDirect env contents contentType filename userId origin mediaId s))
          = Suc k \<and>
        effects (snd (StoreDirect env contents contentType filename userId origin mediaId s))
          = before @ CallUpsertLastAccess (Sha256Hash m) (NowMillis env k)
              # (case UpsertLastAccess env (Sha256Hash m) (NowMillis env k) of
                   None \<Rightarrow> []
                 | Some err \<Rightarrow>
                     [CallLog Global Warn
                        [Str ''Failed to upsert the last access time: '', Err err]])) \<and>
     (\<exists>datastore location hash records.
        PersistFile env contents = Inr (datastore, location) \<and>
        GetFileHash env (ResolveFilePath env datastore location) = Inr hash \<and>
        GetByHash env hash = Inr records \<and>
        ((\<forall>r\<in>set records. Sha256Hash r = hash) \<longrightarrow> Sha256Hash m = hash)) \<and>
     (\<forall>upsert.
        fst (StoreDirect (env\<lparr>UpsertLastAccess := upsert\<rparr>) contents contentType filename userId
               origin mediaId s) = Inr m)"
proof -
  from StoreDirect_success [OF assms] obtain datastore location hash records sx where
    persist: "PersistFile env contents = Inr (datastore, location)"
    and hash: "GetFileHash env (ResolveFilePath env datastore location) = Inr hash"
    and lookup: "GetByHash env hash = Inr records"
    and final: "snd (StoreDirect env contents contentType filename userId origin mediaId s)
        = trackUploadAsLastAccess env m sx"
    and clock: "clock_reads s \<le> clock_reads sx"
    and which: "Sha256Hash m = hash \<or> Sha256Hash m \<in> Sha256Hash ` set records"
    by blast
  have track: "\<exists>before k.
        clock_reads s \<le> k \<and>
        clock_reads (snd (StoreDirect env contents contentType filename userId origin mediaId s))
          = Suc k \<and>
        effects (snd (StoreDirect env contents contentType filename userId origin mediaId s))
          = before @ CallUpsertLastAccess (Sha256Hash m) (NowMillis env k)
              # (case UpsertLastAccess env (Sha256Hash m) (NowMillis env k) of
                   None \<Rightarrow> []
                 | Some err \<Rightarrow>
                     [CallLog Global Warn
                        [Str ''Failed to upsert the last access time: '', Err err]])"
    apply (rule exI [of _ "effects sx"])
    apply (rule exI [of _ "clock_reads sx"])
    using clock
    by (simp add: final clock_trackUploadAsLastAccess effects_trackUploadAsLastAccess)
  have file_hash: "(\<forall>r\<in>set records. Sha256Hash r = hash) \<longrightarrow> Sha256Hash m = hash"
    using which by auto
  have indep: "\<forall>upsert.
        fst (StoreDirect (env\<lparr>UpsertLastAccess := upsert\<rparr>) contents contentType filename userId
               origin mediaId s) = Inr m"
    by (simp add: StoreDirect_fst_upsert assms)
  from track persist hash lookup file_hash indep show ?thesis by blast
qed

text \<open>A fresh upload while the metadata store is down: the record is returned, the
  upsert is attempted and the failure is logged as a warning.\<close>

theorem StoreDirect_success_tracks_last_access_witness:
  "fst (StoreDirect
          (sample_env\<lparr>NowMillis := (\<lambda>k. 1234),
                       UpsertLastAccess := (\<lambda>h t. Some (Failure ''metadata store down''))\<rparr>)
          ''PNG'' ''image/png'' ''a.png'' ''@bob:h'' ''h'' ''m1'' start)
     = Inr \<lparr>Origin = ''h'', MediaId = ''m1'', UploadName = ''a.png'', ContentType = ''image/png'',
            UserId = ''@bob:h'', Sha256Hash = ''abc123'', SizeBytes = 4, DatastoreId = ''ds1'',
            Location = ''tmp/1'', CreationTs = 1234\<rparr> \<and>
   (\<exists>before.
      effects (snd (StoreDirect
          (sample_env\<lparr>NowMillis := (\<lambda>k. 1234),
                       UpsertLastAccess := (\<lambda>h t. Some (Failure ''metadata store down''))\<rparr>)
          ''PNG'' ''image/png'' ''a.png'' ''@bob:h'' ''h'' ''m1'' start))
        = before @ [CallUpsertLastAccess ''abc123'' 1234,
                    CallLog Global Warn [Str ''Failed to upsert the last access time: '',
                                         Err (Failure ''metadata store down'')]]) \<and>
   fst (StoreDirect
          (sample_env\<lparr>NowMillis := (\<lambda>k. 1234),
                       UpsertLastAccess := (\<lambda>h t. Some (Failure ''metadata store down''))\<rparr>
             \<lparr>UpsertLastAccess := (\<lambda>h t. None)\<rparr>)
          ''PNG'' ''image/png'' ''a.png'' ''@bob:h'' ''h'' ''m1'' start)
     = Inr \<lparr>Origin = ''h'', MediaId = ''m1'', UploadName = ''a.png'', ContentType = ''image/png'',
            UserId = ''@bob:h'', Sha256Hash = ''abc123'', SizeBytes = 4, DatastoreId = ''ds1'',
            Location = ''tmp/1'', CreationTs = 1234\<rparr>"
proof -
  define env where "env = sample_env\<lparr>NowMillis := (\<lambda>k. 1234),
                       UpsertLastAccess := (\<lambda>h t. Some (Failure ''metadata store down''))\<rparr>"
  define fresh where "fresh = \<lparr>Origin = ''h'', MediaId = ''m1'', UploadName = ''a.png'',
            ContentType = ''image/png'', UserId = ''@bob:h'', Sha256Hash = ''abc123'',
            SizeBytes = 4, DatastoreId = ''ds1'', Location = ''tmp/1'', CreationTs = 1234\<rparr>"
  have h1: "PersistFile env ''PNG'' = Inr (\<lparr>ds_DatastoreId = ''ds1''\<rparr>, ''tmp/1'')"
    by (simp add: env_def sample_env_def)
  have h2: "GetMimeType env (ResolveFilePath env \<lparr>ds_DatastoreId = ''ds1''\<rparr> ''tmp/1'')
     = Inr ''image/png''"
    by (simp add: env_def sample_env_def)
  have h3: "fst (IsAllowed env ''image/png'' ''image/png'' ''@bob:h'' start)"
    by (simp add: IsAllowed_fst env_def sample_env_def)
  have h4: "GetFileHash env (ResolveFilePath env \<lparr>ds_DatastoreId = ''ds1''\<rparr> ''tmp/1'')
     = Inr ''abc123''"
    by (simp add: env_def sample_env_def)
  have h5: "GetByHash env ''abc123'' = Inr []"
    by (simp add: env_def sample_env_def)
  have vals: "FileSize env (ResolveFilePath env \<lparr>ds_DatastoreId = ''ds1''\<rparr> ''tmp/1'') = Inr 4"
    "NowMillis env = (\<lambda>k. 1234)" "Insert env = (\<lambda>m. None)"
    "UpsertLastAccess env = (\<lambda>h t. Some (Failure ''metadata store down''))"
    by (simp_all add: env_def sample_env_def)
  have res: "fst (StoreDirect env ''PNG'' ''image/png'' ''a.png'' ''@bob:h'' ''h'' ''m1'' start)
               = Inr fresh"
    by (simp add: StoreDirect_at_lookup [OF h1 h2 h3 h4 h5] StoreDirect_new_unfold vals
        fresh_def Let_def)
  note track = StoreDirect_success_tracks_last_access [OF res]
  from track [THEN conjunct1]
  have logged: "\<exists>before.
      effects (snd (StoreDirect env ''PNG'' ''image/png'' ''a.png'' ''@bob:h'' ''h'' ''m1'' start))
        = before @ [CallUpsertLastAccess ''abc123'' 1234,
                    CallLog Global Warn [Str ''Failed to upsert the last access time: '',
                                         Err (Failure ''metadata store down'')]]"
    by (auto simp: vals fresh_def)
  from track [THEN conjunct2, THEN conjunct2]
  have indep: "fst (StoreDirect (env\<lparr>UpsertLastAccess := (\<lambda>h t. None)\<rparr>)
                 ''PNG'' ''image/png'' ''a.png'' ''@bob:h'' ''h'' ''m1'' start) = Inr fresh"
    by (rule spec)
  show ?thesis
    using res logged indep unfolding env_def fresh_def by (intro conjI)
qed

subsection \<open>Error returns and the temp file\<close>

text \<open>Every error return after a successful persist ends with the removal of the temp
  file, with two exceptions: the rejection of an empty file, and a failure to resolve the
  location of the template after the clone has been inserted.\<close>

lemma StoreDirect_new_error:
  assumes "fst (StoreDirect_new env datastore location fileLocation hash contentType filename
                  userId origin mediaId s) = Inl e"
  shows "(\<exists>before. effects (snd (StoreDirect_new env datastore location fileLocation hash
                  contentType filename userId origin mediaId s)) = before @ [CallRemove fileLocation])
         \<or> (\<exists>fileSize. FileSize env fileLocation = Inr fileSize \<and> fileSize \<le> 0
                \<and> e = ErrorsNew ''file has no contents'')"
  using assms
  by (auto simp: StoreDirect_new_unfold Let_def emit_def
      split: sum.splits option.splits if_splits)

lemma StoreDirect_duplicate_error:
  assumes "fst (StoreDirect_duplicate env fileLocation hash records contentType filename
                  userId origin mediaId s) = Inl e"
    and "records \<noteq> []"
  shows "(\<exists>before. effects (snd (StoreDirect_duplicate env fileLocation hash records
                  contentType filename userId origin mediaId s)) = before @ [CallRemove fileLocation])
         \<or> (\<exists>datastoreId loc. ResolveMediaLocation env datastoreId loc = Inl e)"
proof (cases "exact_duplicate records userId origin contentType")
  case (Some dup)
  with assms(1) show ?thesis
    by (simp add: StoreDirect_duplicate_exact [OF Some])
next
  case None
  from assms(2) obtain template rest where recs: "records = template # rest"
    by (cases records) auto
  show ?thesis
    using assms(1) unfolding recs StoreDirect_duplicate_clone [OF None [unfolded recs]]
    by (auto simp: Let_def emit_def split: sum.splits option.splits)
qed

lemma StoreDirect_error:
  assumes persist: "PersistFile env contents = Inr (datastore, location)"
    and err: "fst (StoreDirect env contents contentType filename userId origin mediaId s) = Inl e"
  shows "(\<exists>before. effects (snd (StoreDirect env contents contentType filename userId origin
                  mediaId s)) = before @ [CallRemove (ResolveFilePath env datastore location)])
         \<or> (\<exists>fileSize. FileSize env (ResolveFilePath env datastore location) = Inr fileSize
                \<and> fileSize \<le> 0 \<and> e = ErrorsNew ''file has no contents'')
         \<or> (\<exists>datastoreId loc. ResolveMediaLocation env datastoreId loc = Inl e)"
proof -
  let ?path = "ResolveFilePath env datastore location"
  let ?run = "StoreDirect env contents contentType filename userId origin mediaId s"
  let ?removed = "\<exists>before. effects (snd ?run) = before @ [CallRemove ?path]"
  show ?thesis
  proof (cases "GetMimeType env ?path")
    case (Inl e1)
    then have ?removed
      using persist by (simp add: StoreDirect_def Let_def os_Remove_def emit_def)
    then show ?thesis by blast
  next
    case sniff: (Inr fileMime)
    let ?s1 = "snd (IsAllowed env fileMime contentType userId s)"
    show ?thesis
    proof (cases "fst (IsAllowed env fileMime contentType userId s)")
      case False
      then have ?removed
        using persist sniff
        by (simp add: StoreDirect_def Let_def case_prod_beta os_Remove_def emit_def)
      then show ?thesis by blast
    next
      case admit: True
      show ?thesis
      proof (cases "GetFileHash env ?path")
        case (Inl e1)
        then have ?removed
          using persist sniff admit
          by (simp add: StoreDirect_def Let_def case_prod_beta os_Remove_def emit_def)
        then show ?thesis by blast
      next
        case hash: (Inr hash)
        show ?thesis
        proof (cases "GetByHash env hash")
          case (Inl e1)
          then have ?removed
            using persist sniff admit hash
            by (simp add: StoreDirect_def Let_def case_prod_beta os_Remove_def emit_def)
          then show ?thesis by blast
        next
          case lookup: (Inr records)
          note run = StoreDirect_at_lookup [OF persist sniff admit hash lookup,
              of filename origin mediaId]
          show ?thesis
          proof (cases "records = []")
            case True
            with err run have "fst (StoreDirect_new env datastore location ?path hash
                contentType filename userId origin mediaId ?s1) = Inl e" by simp
            from StoreDirect_new_error [OF this] show ?thesis
              using True run by auto
          next
            case False
            with err run have "fst (StoreDirect_duplicate env ?path hash records
                contentType filename userId origin mediaId ?s1) = Inl e" by simp
            from StoreDirect_duplicate_error [OF this False] show ?thesis
              using False run by auto
          qed
        qed
      qed
    qed
  qed
qed

text \<open>
  Claim C1. Every error return of \<^verbatim>\<open>StoreDirect\<close> after the temp file has been persisted
  and its path resolved is to remove the temp file first. The code returns an error and
  leaves the temp file at the two exceptions of \<open>StoreDirect_error\<close>, evaluated here in the
  sample world: an empty upload is rejected with ``file has no contents'' and no action
  at all, and Dave's upload of Bob's bytes fails with the error of
  \<^verbatim>\<open>storage.ResolveMediaLocation\<close> after the insert of the clone, which is its only
  action. On all other error returns the removal is the last effect, and its own error
  is dropped.
\<close>

theorem StoreDirect_error_leaves_temp_file:
  "ResolveFilePath sample_env \<lparr>ds_DatastoreId = ''ds1''\<rparr> ''tmp/1'' = ''/media/tmp/1'' \<and>
   fst (StoreDirect (sample_env\<lparr>FileSize := (\<lambda>p. Inr 0)\<rparr>) '''' ''image/png'' ''empty.png''
          ''@bob:h'' ''h'' ''m2'' start)
     = Inl (ErrorsNew ''file has no contents'') \<and>
   actions (effects (snd (StoreDirect (sample_env\<lparr>FileSize := (\<lambda>p. Inr 0)\<rparr>) '''' ''image/png''
          ''empty.png'' ''@bob:h'' ''h'' ''m2'' start))) = [] \<and>
   fst (StoreDirect
          (dup_env\<lparr>ResolveMediaLocation := (\<lambda>d l. Inl (Failure ''unknown datastore''))\<rparr>)
          ''PNG'' ''image/png'' ''d.png'' ''@dave:h'' ''h'' ''m2'' start)
     = Inl (Failure ''unknown datastore'') \<and>
   actions (effects (snd (StoreDirect
          (dup_env\<lparr>ResolveMediaLocation := (\<lambda>d l. Inl (Failure ''unknown datastore''))\<rparr>)
          ''PNG'' ''image/png'' ''d.png'' ''@dave:h'' ''h'' ''m2'' start)))
     = [CallInsert \<lparr>Origin = ''h'', MediaId = ''m2'', UploadName = ''d.png'',
                     ContentType = ''image/png'', UserId = ''@dave:h'', Sha256Hash = ''abc123'',
                     SizeBytes = 4, DatastoreId = ''ds1'', Location = ''blob/abc123'',
                     CreationTs = 1000\<rparr>]"
proof -
  define env0 where "env0 = sample_env\<lparr>FileSize := (\<lambda>p. Inr 0)\<rparr>"
  define env1 where
    "env1 = dup_env\<lparr>ResolveMediaLocation := (\<lambda>d l. Inl (Failure ''unknown datastore''))\<rparr>"
  define clone where "clone = \<lparr>Origin = ''h'', MediaId = ''m2'', UploadName = ''d.png'',
                     ContentType = ''image/png'', UserId = ''@dave:h'', Sha256Hash = ''abc123'',
                     SizeBytes = 4, DatastoreId = ''ds1'', Location = ''blob/abc123'',
                     CreationTs = 1000\<rparr>"
  have a0: "actions (effects start) = []" by (simp add: start_def actions_def)
  have path: "ResolveFilePath sample_env \<lparr>ds_DatastoreId = ''ds1''\<rparr> ''tmp/1'' = ''/media/tmp/1''"
    by (simp add: sample_env_def)
  have e1: "PersistFile env0 '''' = Inr (\<lparr>ds_DatastoreId = ''ds1''\<rparr>, ''tmp/1'')"
    and e2: "GetMimeType env0 (ResolveFilePath env0 \<lparr>ds_DatastoreId = ''ds1''\<rparr> ''tmp/1'')
               = Inr ''image/png''"
    and e4: "GetFileHash env0 (ResolveFilePath env0 \<lparr>ds_DatastoreId = ''ds1''\<rparr> ''tmp/1'')
               = Inr ''abc123''"
    and e5: "GetByHash env0 ''abc123'' = Inr []"
    and e6: "FileSize env0 (ResolveFilePath env0 \<lparr>ds_DatastoreId = ''ds1''\<rparr> ''tmp/1'') = Inr 0"
    by (simp_all add: env0_def sample_env_def)
  have e3: "fst (IsAllowed env0 ''image/png'' ''image/png'' ''@bob:h'' start)"
    by (simp add: IsAllowed_fst env0_def sample_env_def)
  have empty: "StoreDirect env0 '''' ''image/png'' ''empty.png'' ''@bob:h'' ''h'' ''m2'' start
      = (Inl (ErrorsNew ''file has no contents''),
         snd (IsAllowed env0 ''image/png'' ''image/png'' ''@bob:h'' start))"
    by (simp add: StoreDirect_at_lookup [OF e1 e2 e3 e4 e5] StoreDirect_new_unfold e6)
  have d1: "PersistFile env1 ''PNG'' = Inr (\<lparr>ds_DatastoreId = ''ds1''\<rparr>, ''tmp/1'')"
    and d2: "GetMimeType env1 (ResolveFilePath env1 \<lparr>ds_DatastoreId = ''ds1''\<rparr> ''tmp/1'')
               = Inr ''image/png''"
    and d4: "GetFileHash env1 (ResolveFilePath env1 \<lparr>ds_DatastoreId = ''ds1''\<rparr> ''tmp/1'')
               = Inr ''abc123''"
    and d5: "GetByHash env1 ''abc123'' = Inr [bob_record]"
    and d6: "Insert env1 clone = None"
    and d7: "ResolveMediaLocation env1 (DatastoreId bob_record) (Location bob_record)
               = Inl (Failure ''unknown datastore'')"
    by (simp_all add: env1_def dup_env_def sample_env_def)
  have d3: "fst (IsAllowed env1 ''image/png'' ''image/png'' ''@dave:h'' start)"
    by (simp add: IsAllowed_fst env1_def dup_env_def sample_env_def)
  let ?s1 = "snd (IsAllowed env1 ''image/png'' ''image/png'' ''@dave:h'' start)"
  have none: "exact_duplicate [bob_record] ''@dave:h'' ''h'' ''image/png'' = None"
    by (simp add: exact_duplicate_None bob_record_def)
  have clock: "clock_reads ?s1 = clock_reads start" by (rule IsAllowed_clock)
  have acts1: "actions (effects ?s1) = []" by (simp add: IsAllowed_actions a0)
  have clone: "clone = bob_record\<lparr>Origin := ''h'', MediaId := ''m2'', UserId := ''@dave:h'',
                UploadName := ''d.png'', ContentType := ''image/png'',
                CreationTs := NowMillis env1 (clock_reads ?s1)\<rparr>"
    unfolding clock
    by (simp add: clone_def bob_record_def env1_def dup_env_def sample_env_def start_def)
  have run: "StoreDirect env1 ''PNG'' ''image/png'' ''d.png'' ''@dave:h'' ''h'' ''m2'' start
      = StoreDirect_duplicate env1 (ResolveFilePath env1 \<lparr>ds_DatastoreId = ''ds1''\<rparr> ''tmp/1'')
          ''abc123'' [bob_record] ''image/png'' ''d.png'' ''@dave:h'' ''h'' ''m2'' ?s1"
    by (simp add: StoreDirect_at_lookup [OF d1 d2 d3 d4 d5])
  have failed: "fst (StoreDirect env1 ''PNG'' ''image/png'' ''d.png'' ''@dave:h'' ''h'' ''m2'' start)
      = Inl (Failure ''unknown datastore'')"
    unfolding run by (simp add: StoreDirect_duplicate_clone_result [OF none clone] d6 d7)
  have left: "actions (effects (snd (StoreDirect env1 ''PNG'' ''image/png'' ''d.png'' ''@dave:h''
                  ''h'' ''m2'' start))) = [CallInsert clone]"
    unfolding run by (simp add: StoreDirect_duplicate_clone_actions [OF none clone] d6 d7 acts1)
  show ?thesis
    using path empty failed left unfolding env0_def env1_def clone_def
    by (simp add: IsAllowed_actions a0)
qed

end
